theory Spec2Isabelle
  imports Main "HOL-Library.Word"
begin

section \<open>JavaScript strings and byte buffers\<close>

text \<open>
  A JavaScript string is modelled as a \<^typ>\<open>string\<close> whose characters are the code
  units below 256 (the Latin-1 range, which is what an HTTP header value holds). A
  \<^verbatim>\<open>Buffer\<close> is a list of 8-bit words.
\<close>

type_synonym buffer = "8 word list"

text \<open>\<^verbatim>\<open>String.prototype.startsWith\<close>.\<close>

fun startsWith :: "string \<Rightarrow> string \<Rightarrow> bool" where
  "startsWith s [] = True"
| "startsWith [] (p # ps) = False"
| "startsWith (c # cs) (p # ps) = (c = p \<and> startsWith cs ps)"

text \<open>\<^verbatim>\<open>String.prototype.includes\<close>.\<close>

fun includes_str :: "string \<Rightarrow> string \<Rightarrow> bool" where
  "includes_str [] p = (p = [])"
| "includes_str (c # cs) p = (startsWith (c # cs) p \<or> includes_str cs p)"

text \<open>
  \<^verbatim>\<open>String.prototype.replace\<close> with a string pattern: only the first occurrence of the
  pattern is replaced.
\<close>

fun replace :: "string \<Rightarrow> string \<Rightarrow> string \<Rightarrow> string" where
  "replace [] p r = (if p = [] then r else [])"
| "replace (c # cs) p r =
     (if startsWith (c # cs) p then r @ drop (length p) (c # cs) else c # replace cs p r)"

text \<open>
  \<^verbatim>\<open>String.prototype.split\<close> with a one-character separator. The result is never
  empty: the empty string splits into one empty segment.
\<close>

fun split :: "string \<Rightarrow> char \<Rightarrow> string list" where
  "split [] sep = [[]]"
| "split (c # cs) sep =
     (if c = sep then [] # split cs sep
      else (case split cs sep of [] \<Rightarrow> [[c]] | x # xs \<Rightarrow> (c # x) # xs))"

text \<open>
  Case mapping on code units below 256: the upper-case letters are \<open>A\<close>--\<open>Z\<close> and
  \<open>0xC0\<close>--\<open>0xDE\<close> without the multiplication sign \<open>0xD7\<close>; each lower-case partner is
  \<open>0x20\<close> above, which is the sixth bit set.
\<close>

definition isUpper :: "char \<Rightarrow> bool" where
  "isUpper c =
     (let n = (of_char c :: nat)
      in (65 \<le> n \<and> n \<le> 90) \<or> (192 \<le> n \<and> n \<le> 222 \<and> n \<noteq> 215))"

fun lowerChar :: "char \<Rightarrow> char" where
  "lowerChar (Char b0 b1 b2 b3 b4 b5 b6 b7) =
     (if isUpper (Char b0 b1 b2 b3 b4 b5 b6 b7) then Char b0 b1 b2 b3 b4 True b6 b7
      else Char b0 b1 b2 b3 b4 b5 b6 b7)"

definition toLowerCase :: "string \<Rightarrow> string" where
  "toLowerCase s = map lowerChar s"

text \<open>
  \<^verbatim>\<open>toUpperCase\<close> is only ever applied to the output of the hex encoding, so the
  ASCII letters are all it has to map.
\<close>

definition isAsciiLower :: "char \<Rightarrow> bool" where
  "isAsciiLower c = (let n = (of_char c :: nat) in 97 \<le> n \<and> n \<le> 122)"

fun upperChar :: "char \<Rightarrow> char" where
  "upperChar (Char b0 b1 b2 b3 b4 b5 b6 b7) =
     (if isAsciiLower (Char b0 b1 b2 b3 b4 b5 b6 b7) then Char b0 b1 b2 b3 b4 False b6 b7
      else Char b0 b1 b2 b3 b4 b5 b6 b7)"

definition toUpperCase :: "string \<Rightarrow> string" where
  "toUpperCase s = map upperChar s"

text \<open>
  \<^verbatim>\<open>String.prototype.trim\<close>: the white space below 256 is tab, line feed, vertical tab,
  form feed, carriage return, space and the no-break space.
\<close>

definition isWhiteSpace :: "char \<Rightarrow> bool" where
  "isWhiteSpace c = ((of_char c :: nat) \<in> {9, 10, 11, 12, 13, 32, 160})"

definition trim :: "string \<Rightarrow> string" where
  "trim s = rev (dropWhile isWhiteSpace (rev (dropWhile isWhiteSpace s)))"

text \<open>Decimal rendering of a number inside a template literal.\<close>

definition digit_char :: "nat \<Rightarrow> char" where
  "digit_char d = ''0123456789'' ! d"

function string_of_nat :: "nat \<Rightarrow> string" where
  "string_of_nat n =
     (if n < 10 then [digit_char n] else string_of_nat (n div 10) @ [digit_char (n mod 10)])"
  by pat_completeness auto
termination
  by (relation "measure (\<lambda>n. n)") auto

text \<open>\<^verbatim>\<open>buffer.toString('hex')\<close>: two lower-case hex digits per byte.\<close>

definition hex_digit :: "nat \<Rightarrow> char" where
  "hex_digit d = ''0123456789abcdef'' ! d"

definition hex_of_byte :: "8 word \<Rightarrow> string" where
  "hex_of_byte b = [hex_digit (unat b div 16), hex_digit (unat b mod 16)]"

definition toString_hex :: "buffer \<Rightarrow> string" where
  "toString_hex buf = concat (map hex_of_byte buf)"

text \<open>Truthiness of an optional string: \<^verbatim>\<open>undefined\<close>, \<^verbatim>\<open>null\<close> and the empty string
  are falsy.\<close>

definition truthy :: "string option \<Rightarrow> bool" where
  "truthy v = (case v of None \<Rightarrow> False | Some s \<Rightarrow> s \<noteq> [])"

section \<open>The fetcher's error type\<close>

text \<open>
  Modelled from the spec: the class \<^verbatim>\<open>ImageProcessingError\<close> is declared in
  \<^verbatim>\<open>./types\<close>; an error descriptor carries an HTTP-style status code, a symbolic kind
  and a message, in the order of the constructor calls of the fetcher. It is an
  \<^verbatim>\<open>Error\<close> whose \<^verbatim>\<open>name\<close> is not \<^verbatim>\<open>AbortError\<close>.
\<close>

datatype image_processing_error =
  ImageProcessingError (statusCode: nat) (errorType: string) (message: string)

section \<open>Signature detection (origin-fetcher.ts)\<close>

text \<open>
  \<^verbatim>\<open>Object.entries(magicToFormat)\<close>. A JavaScript object enumerates the keys that are
  canonical array indices first, in ascending numeric order, and the other string keys
  after them in insertion order. Of the six keys of the literal, \<^verbatim>\<open>47494638\<close> and
  \<^verbatim>\<open>52494646\<close> are decimal numerals, so the loop visits them first.
\<close>

definition magicToFormat :: "(string \<times> string) list" where
  "magicToFormat =
     [(''47494638'', ''gif''),
      (''52494646'', ''webp''),
      (''FFD8FF'', ''jpeg''),
      (''89504E47'', ''png''),
      (''49492A00'', ''tiff''),
      (''4D4D002A'', ''tiff'')]"

text \<open>
  The loop \<^verbatim>\<open>for (const [magic, format] of ...) if (fileHeader.startsWith(magic)) { ...; break }\<close>.
\<close>

fun scanSignatures :: "(string \<times> string) list \<Rightarrow> string \<Rightarrow> string option" where
  "scanSignatures [] fileHeader = None"
| "scanSignatures ((magic, format) # rest) fileHeader =
     (if startsWith fileHeader magic then Some format else scanSignatures rest fileHeader)"

definition fileHeader :: "buffer \<Rightarrow> string" where
  "fileHeader buf = toUpperCase (toString_hex (take 4 buf))"

definition detectedFormat :: "buffer \<Rightarrow> image_processing_error + string option" where
  "detectedFormat buf =
     (if length buf < 4 then
        Inl (ImageProcessingError 415 ''InvalidImage'' ''File too small to be a valid image'')
      else Inr (scanSignatures magicToFormat (fileHeader buf)))"

definition validTypes :: "string list" where
  "validTypes =
     [''image/jpeg'', ''image/jpg'', ''image/png'', ''image/webp'',
      ''image/gif'', ''image/tiff'', ''image/avif'', ''image/heif'']"

definition isValidImageContentType :: "string \<Rightarrow> bool" where
  "isValidImageContentType contentType =
     list_ex (\<lambda>type. includes_str (toLowerCase contentType) type) validTypes"

section \<open>Cross-validation (origin-fetcher.ts)\<close>

text \<open>
  \<^verbatim>\<open>validateImageMagicNumbers\<close> declares a second copy of the literal
  \<^verbatim>\<open>magicToFormat\<close> and runs the same loop over it; the model uses the one table.
\<close>

definition contentTypeToFormat :: "(string \<times> string) list" where
  "contentTypeToFormat =
     [(''image/webp'', ''webp''),
      (''image/png'', ''png''),
      (''image/jpeg'', ''jpeg''),
      (''image/jpg'', ''jpeg''),
      (''image/tiff'', ''tiff''),
      (''image/gif'', ''gif'')]"

text \<open>
  The property read \<^verbatim>\<open>contentTypeToFormat[contentType.toLowerCase()]\<close> on an object
  literal: an own key gives its format; a key that is not an own key is looked up on
  \<^verbatim>\<open>Object.prototype\<close>, whose only names without an upper-case letter are
  \<^verbatim>\<open>constructor\<close> and \<^verbatim>\<open>__proto__\<close>. Both values are truthy objects. The result is
  the text the value has inside the template literal of the error message, or
  \<open>None\<close> for \<^verbatim>\<open>undefined\<close>.
\<close>

definition expectedFormat :: "string \<Rightarrow> string option" where
  "expectedFormat key =
     (case map_of contentTypeToFormat key of
        Some format \<Rightarrow> Some format
      | None \<Rightarrow>
          if key = ''constructor'' then Some ''function Object() { [native code] }''
          else if key = ''__proto__'' then Some ''[object Object]''
          else None)"

definition validateImageMagicNumbers ::
  "buffer \<Rightarrow> string option \<Rightarrow> image_processing_error + unit" where
  "validateImageMagicNumbers buf contentType =
     (if length buf < 4 then
        Inl (ImageProcessingError 415 ''InvalidImage'' ''File too small to be a valid image'')
      else
        let detected = scanSignatures magicToFormat (fileHeader buf)
        in (case contentType of
              None \<Rightarrow> Inr ()
            | Some ct \<Rightarrow>
                if ct = [] then Inr ()
                else
                  (case expectedFormat (toLowerCase ct) of
                     None \<Rightarrow> Inr ()
                   | Some expected \<Rightarrow>
                       if \<not> truthy detected then
                         Inl (ImageProcessingError 415 ''InvalidImage''
                                (''Invalid or corrupted '' @ expected @ '' file''))
                       else Inr ())))"

section \<open>Collaborators and the values they throw\<close>

text \<open>
  A value thrown by a collaborator (the URL validator, the object-store helper, the
  object-store client, \<^verbatim>\<open>fetch\<close>, \<^verbatim>\<open>axios\<close>), with the properties the two
  components read from it: \<^verbatim>\<open>instanceof Error\<close>, \<^verbatim>\<open>name\<close>, \<^verbatim>\<open>message\<close>,
  \<^verbatim>\<open>$metadata?.httpStatusCode\<close>, \<^verbatim>\<open>axios.isAxiosError\<close>, \<^verbatim>\<open>response?.status\<close> and
  \<^verbatim>\<open>code\<close>. The message is a string, as it is on every \<^verbatim>\<open>Error\<close>.
\<close>

record js_error =
  instanceofError :: bool
  error_name :: string
  error_message :: string
  httpStatusCode :: "nat option"
  isAxiosError :: bool
  response_status :: "nat option"
  code :: "string option"

text \<open>
  What a \<^verbatim>\<open>catch\<close> clause receives: an instance of the component's own error class,
  thrown inside the \<^verbatim>\<open>try\<close> block, or a value thrown by a collaborator.
\<close>

datatype 'e caught = Own 'e | Foreign js_error

text \<open>
  Modelled from the spec: \<^verbatim>\<open>S3ErrorHandler.mapError\<close> is declared in
  \<^verbatim>\<open>utils/s3-error-handler\<close>; it maps an error to a status code, a kind and a message,
  or to nothing.
\<close>

datatype mapped_error =
  MappedError (mapped_statusCode: nat) (mapped_errorType: string) (mapped_message: string)

text \<open>The response of \<^verbatim>\<open>GetObjectCommand\<close>: the body is a \<^verbatim>\<open>Buffer\<close> or a stream
  whose \<^verbatim>\<open>transformToByteArray\<close> gives the bytes or throws.\<close>

datatype s3_body = BufferBody buffer | StreamBody "js_error + buffer"

record get_object_response =
  Body :: "s3_body option"
  ContentType :: "string option"

text \<open>
  The \<^verbatim>\<open>Response\<close> of \<^verbatim>\<open>fetch\<close>: status, status text, the value of
  \<^verbatim>\<open>headers.get('content-type')\<close> (\<open>None\<close> for \<^verbatim>\<open>null\<close>) and what
  \<^verbatim>\<open>arrayBuffer()\<close> gives.
\<close>

record http_response =
  http_status :: nat
  http_statusText :: string
  http_contentType :: "string option"
  http_arrayBuffer :: "js_error + buffer"

text \<open>\<^verbatim>\<open>response.ok\<close>: the status is in the range 200 to 299.\<close>

definition ok :: "http_response \<Rightarrow> bool" where
  "ok response = (200 \<le> http_status response \<and> http_status response \<le> 299)"

text \<open>
  The collaborators are parameters of the model. A function that can throw returns
  \<open>Inl\<close> of the thrown value; \<^verbatim>\<open>UrlValidator.validate\<close> returns nothing, so it is
  \<open>None\<close> when it returns and \<open>Some\<close> of the thrown value otherwise. The two
  readings of \<^verbatim>\<open>Date.now()\<close> in the probe are \<open>preflightStart\<close> and
  \<open>preflightEnd\<close>.
\<close>

record env =
  isS3Url :: "string \<Rightarrow> bool"
  parseS3Url :: "string \<Rightarrow> js_error + string \<times> string"
  mapHeaderToS3Property :: "string \<Rightarrow> string"
  validate :: "string \<Rightarrow> js_error option"
  mapError :: "js_error \<Rightarrow> mapped_error option"
  send_GetObject :: "(string \<rightharpoonup> string) \<Rightarrow> js_error + get_object_response"
  fetch :: "string \<Rightarrow> (string \<rightharpoonup> string) \<Rightarrow> js_error + http_response"
  send_HeadObject :: "(string \<rightharpoonup> string) \<Rightarrow> js_error + string option"
  axios_head :: "string \<Rightarrow> (string \<times> string) list \<Rightarrow> js_error + string option"
  preflightStart :: int
  preflightEnd :: int

text \<open>The network requests a call of the fetcher issues, in order.\<close>

datatype net_call =
  GetObject "string \<rightharpoonup> string"
| HttpGet string "string \<rightharpoonup> string"

text \<open>
  The command input of both object-store requests: bucket and key, then every caller
  header whose lower-cased name starts with \<^verbatim>\<open>x-amz-\<close> or \<^verbatim>\<open>if-\<close>, stored under the
  property the helper names. The headers are the entries of the caller's object in
  enumeration order. Both components contain this loop.
\<close>

definition forwardHeader ::
  "env \<Rightarrow> string \<times> string \<Rightarrow> (string \<rightharpoonup> string) \<Rightarrow> (string \<rightharpoonup> string)" where
  "forwardHeader e entry commandInput =
     (let lowerName = toLowerCase (fst entry)
      in if startsWith lowerName ''x-amz-'' \<or> startsWith lowerName ''if-''
         then commandInput(mapHeaderToS3Property e lowerName \<mapsto> snd entry)
         else commandInput)"

definition commandInput ::
  "env \<Rightarrow> string \<Rightarrow> string \<Rightarrow> (string \<times> string) list option \<Rightarrow> (string \<rightharpoonup> string)" where
  "commandInput e bucket key headers =
     fold (forwardHeader e) (case headers of None \<Rightarrow> [] | Some hs \<Rightarrow> hs)
       [''Bucket'' \<mapsto> bucket, ''Key'' \<mapsto> key]"

section \<open>The full fetch (origin-fetcher.ts)\<close>

text \<open>
  The fetcher's \<^verbatim>\<open>console.log\<close> lines and the clock readings that only feed them are
  not part of the model.
\<close>

definition handleFetchError ::
  "env \<Rightarrow> image_processing_error caught \<Rightarrow> string \<Rightarrow> image_processing_error" where
  "handleFetchError e error url =
     (case error of
        Own own \<Rightarrow> own
      | Foreign err \<Rightarrow>
          (case mapError e err of
             Some mappedError \<Rightarrow>
               ImageProcessingError (mapped_statusCode mappedError)
                 (if mapped_errorType mappedError = ''KeyNotFound'' then ''ImageNotFound''
                  else mapped_errorType mappedError)
                 (mapped_message mappedError)
           | None \<Rightarrow>
               ImageProcessingError 500 ''FetchError''
                 (''Failed to fetch image from '' @ url @ '': '' @ error_message err)))"

text \<open>The body of the \<^verbatim>\<open>try\<close> block of \<^verbatim>\<open>fetchFromS3\<close>, after the URL is parsed.\<close>

definition fetchFromS3_send ::
  "env \<Rightarrow> (string \<rightharpoonup> string) \<Rightarrow> image_processing_error caught + buffer \<times> string option" where
  "fetchFromS3_send e input =
     (case send_GetObject e input of
        Inl err \<Rightarrow> Inl (Foreign err)
      | Inr response \<Rightarrow>
          (case Body response of
             None \<Rightarrow>
               Inl (Own (ImageProcessingError 404 ''ImageNotFound'' ''Image not found in S3''))
           | Some (BufferBody bytes) \<Rightarrow> Inr (bytes, ContentType response)
           | Some (StreamBody (Inl err)) \<Rightarrow> Inl (Foreign err)
           | Some (StreamBody (Inr bytes)) \<Rightarrow> Inr (bytes, ContentType response)))"

text \<open>The \<^verbatim>\<open>catch\<close> clause of \<^verbatim>\<open>fetchFromS3\<close>.\<close>

definition fetchFromS3_catch ::
  "env \<Rightarrow> string \<Rightarrow> image_processing_error caught \<Rightarrow> image_processing_error" where
  "fetchFromS3_catch e url error =
     (case error of
        Own own \<Rightarrow>
          if message own = ''Invalid S3 URL format'' then
            ImageProcessingError 400 ''InvalidS3Url'' (message own)
          else handleFetchError e error url
      | Foreign err \<Rightarrow>
          if instanceofError err \<and> error_message err = ''Invalid S3 URL format'' then
            ImageProcessingError 400 ''InvalidS3Url'' (error_message err)
          else handleFetchError e error url)"

definition fetchFromS3 ::
  "env \<Rightarrow> string \<Rightarrow> (string \<times> string) list option \<Rightarrow>
     net_call list \<times> (image_processing_error + buffer \<times> string option)" where
  "fetchFromS3 e url headers =
     (case parseS3Url e url of
        Inl err \<Rightarrow> ([], Inl (fetchFromS3_catch e url (Foreign err)))
      | Inr (bucket, key) \<Rightarrow>
          (let input = commandInput e bucket key headers
           in ([GetObject input],
               case fetchFromS3_send e input of
                 Inl error \<Rightarrow> Inl (fetchFromS3_catch e url error)
               | Inr result \<Rightarrow> Inr result)))"

text \<open>
  The \<^verbatim>\<open>TypeError\<close> of the method call \<^verbatim>\<open>contentType.toLowerCase()\<close> on \<^verbatim>\<open>null\<close>.
\<close>

definition nullTypeError :: js_error where
  "nullTypeError =
     \<lparr>instanceofError = True,
      error_name = ''TypeError'',
      error_message = ''Cannot read properties of null (reading 'toLowerCase')'',
      httpStatusCode = None,
      isAxiosError = False,
      response_status = None,
      code = None\<rparr>"

text \<open>
  \<^verbatim>\<open>{ 'User-Agent': 'DIT-v8-ImageProcessor/1.0', ...headers }\<close>: the caller's entries
  are written over the fixed one.
\<close>

definition fetchHeaders :: "(string \<times> string) list option \<Rightarrow> (string \<rightharpoonup> string)" where
  "fetchHeaders headers =
     fold (\<lambda>entry m. m(fst entry \<mapsto> snd entry)) (case headers of None \<Rightarrow> [] | Some hs \<Rightarrow> hs)
       [''User-Agent'' \<mapsto> ''DIT-v8-ImageProcessor/1.0'']"

text \<open>
  The body of the \<^verbatim>\<open>try\<close> block of \<^verbatim>\<open>fetchFromHttp\<close> once \<^verbatim>\<open>fetch\<close> has
  answered. The first test of the content type is guarded by its truthiness; the second
  one, after the body is read and its signature looked for, calls
  \<^verbatim>\<open>contentType.toLowerCase()\<close> without a guard.
\<close>

definition fetchFromHttp_body ::
  "http_response \<Rightarrow> image_processing_error caught + buffer \<times> string option" where
  "fetchFromHttp_body response =
     (case http_arrayBuffer response of
        Inl err \<Rightarrow> Inl (Foreign err)
      | Inr bytes \<Rightarrow>
          (case detectedFormat bytes of
             Inl own \<Rightarrow> Inl (Own own)
           | Inr detected \<Rightarrow>
               (case http_contentType response of
                  None \<Rightarrow> Inl (Foreign nullTypeError)
                | Some contentType \<Rightarrow>
                    if trim (toLowerCase contentType) = ''binary/octet-stream''
                         \<and> \<not> truthy detected
                    then
                      Inl (Own (ImageProcessingError 415 ''InvalidImage''
                                  (''Invalid or corrupted Content-Type '' @ contentType @ '' file'')))
                    else Inr (bytes, if contentType = [] then None else Some contentType))))"

definition fetchFromHttp_response ::
  "http_response \<Rightarrow> image_processing_error caught + buffer \<times> string option" where
  "fetchFromHttp_response response =
     (if \<not> ok response then
        Inl (Own (ImageProcessingError (http_status response) ''HttpFetchError''
                    (''Failed to fetch image: '' @ string_of_nat (http_status response)
                       @ '' '' @ http_statusText response)))
      else
        (case http_contentType response of
           None \<Rightarrow> fetchFromHttp_body response
         | Some contentType \<Rightarrow>
             if contentType \<noteq> []
                  \<and> trim (toLowerCase contentType) \<noteq> ''binary/octet-stream''
                  \<and> \<not> isValidImageContentType contentType
             then
               Inl (Own (ImageProcessingError 415 ''InvalidContentType''
                           (''Invalid content type: '' @ contentType)))
             else fetchFromHttp_body response))"

text \<open>The \<^verbatim>\<open>catch\<close> clause of \<^verbatim>\<open>fetchFromHttp\<close>.\<close>

definition fetchFromHttp_catch ::
  "env \<Rightarrow> string \<Rightarrow> image_processing_error caught \<Rightarrow> image_processing_error" where
  "fetchFromHttp_catch e url error =
     (case error of
        Own own \<Rightarrow> handleFetchError e error url
      | Foreign err \<Rightarrow>
          if error_name err = ''AbortError'' then
            ImageProcessingError 504 ''RequestTimeout'' ''Origin Request timeout''
          else handleFetchError e error url)"

definition fetchFromHttp ::
  "env \<Rightarrow> string \<Rightarrow> (string \<times> string) list option \<Rightarrow>
     net_call list \<times> (image_processing_error + buffer \<times> string option)" where
  "fetchFromHttp e url headers =
     ([HttpGet url (fetchHeaders headers)],
      case (case fetch e url (fetchHeaders headers) of
              Inl err \<Rightarrow> Inl (Foreign err)
            | Inr response \<Rightarrow> fetchFromHttp_response response) of
        Inl error \<Rightarrow> Inl (fetchFromHttp_catch e url error)
      | Inr result \<Rightarrow> Inr result)"

text \<open>The dispatch of \<^verbatim>\<open>fetchImage\<close> that assigns \<^verbatim>\<open>result\<close>.\<close>

definition fetchOrigin ::
  "env \<Rightarrow> string \<Rightarrow> (string \<times> string) list option \<Rightarrow>
     net_call list \<times> (image_processing_error + buffer \<times> string option)" where
  "fetchOrigin e url headers =
     (if isS3Url e url then fetchFromS3 e url headers
      else if startsWith url ''http://'' \<or> startsWith url ''https://'' then
        (case validate e url of
           Some error \<Rightarrow>
             ([], Inl (ImageProcessingError 400 ''InvalidUrl''
                         (if instanceofError error then error_message error else ''Invalid URL'')))
         | None \<Rightarrow> fetchFromHttp e url headers)
      else ([], Inl (ImageProcessingError 400 ''InvalidUrl'' ''Unsupported URL protocol'')))"

record image_metadata =
  metadata_size :: nat
  metadata_format :: "string option"

record fetched_image =
  buffer :: buffer
  metadata :: image_metadata

definition fetchImage ::
  "env \<Rightarrow> string \<Rightarrow> (string \<times> string) list option \<Rightarrow>
     net_call list \<times> (image_processing_error + fetched_image)" where
  "fetchImage e url headers =
     (case fetchOrigin e url headers of
        (calls, Inl error) \<Rightarrow> (calls, Inl error)
      | (calls, Inr (bytes, contentType)) \<Rightarrow>
          (calls,
           case validateImageMagicNumbers bytes contentType of
             Inl error \<Rightarrow> Inl error
           | Inr u \<Rightarrow>
               (case detectedFormat bytes of
                  Inl error \<Rightarrow> Inl error
                | Inr detected \<Rightarrow>
                    Inr \<lparr>buffer = bytes,
                         metadata =
                           \<lparr>metadata_size = length bytes,
                            metadata_format =
                              (if truthy detected then detected
                               else map_option (\<lambda>ct. replace ct ''image/'' []) contentType)\<rparr>\<rparr>)))"

section \<open>The preflight probe (connection-manager.ts)\<close>

text \<open>
  Modelled from the spec: the class \<^verbatim>\<open>ConnectionError\<close> is declared in
  \<^verbatim>\<open>../errors/connection.error\<close>; its constructor takes a title, a message, the status
  code and the symbolic kind, in the order of the constructor calls of the probe.
\<close>

datatype connection_error =
  ConnectionError (title: string) (detail: string) (status: nat) (errorCode: string)

text \<open>
  Modelled from the spec: the type \<^verbatim>\<open>ImageProcessingRequest\<close> is declared in
  \<^verbatim>\<open>types/image-processing-request\<close>; the probe reads the optional header mapping and
  writes the content-type slot and, inside an optional timing record, the preflight
  time.
\<close>

record request_resolution =
  preflightValidationMs :: "int option"

record timing_record =
  requestResolution :: "request_resolution option"

record image_request =
  clientHeaders :: "(string \<times> string) list option"
  sourceImageContentType :: "string option"
  timings :: "timing_record option"

text \<open>
  The expression \<^verbatim>\<open>contentType?.split(';')[0].trim().startsWith(prefix)\<close>; on
  \<^verbatim>\<open>undefined\<close> the optional chain gives \<^verbatim>\<open>undefined\<close>, which the negation in
  \<^verbatim>\<open>validateContentType\<close> reads as false.
\<close>

definition mediaTypeStartsWith :: "string option \<Rightarrow> string \<Rightarrow> bool" where
  "mediaTypeStartsWith contentType prefix =
     (case contentType of
        None \<Rightarrow> False
      | Some ct \<Rightarrow> startsWith (trim (hd (split ct CHR '';''))) prefix)"

definition validateContentType :: "string option \<Rightarrow> connection_error + unit" where
  "validateContentType contentType =
     (if \<not> mediaTypeStartsWith contentType ''image/''
           \<and> \<not> mediaTypeStartsWith contentType ''binary/octet-stream''
      then
        Inl (ConnectionError ''Invalid content type''
               (''Origin does not serve image content. Content-Type: ''
                  @ (case contentType of None \<Rightarrow> ''undefined'' | Some ct \<Rightarrow> ct))
               400 ''INVALID_FORMAT'')
      else Inr ())"

text \<open>The \<^verbatim>\<open>catch\<close> clause of \<^verbatim>\<open>validateS3Origin\<close>.\<close>

definition validateS3Origin_catch ::
  "string \<Rightarrow> connection_error caught \<Rightarrow> connection_error" where
  "validateS3Origin_catch url error =
     (case error of
        Own own \<Rightarrow> own
      | Foreign err \<Rightarrow>
          if instanceofError err \<and> error_message err = ''Invalid S3 URL format'' then
            ConnectionError ''Invalid S3 URL format'' (''Invalid S3 URL format: '' @ url)
              400 ''INVALID_URL''
          else if httpStatusCode err = Some 404 then
            ConnectionError ''Resource not found'' (''S3 object not found: '' @ url)
              404 ''RESOURCE_NOT_FOUND''
          else if httpStatusCode err = Some 403 then
            ConnectionError ''Access denied'' (''Access denied to S3 resource: '' @ url)
              403 ''ACCESS_DENIED''
          else
            ConnectionError ''S3 validation failed''
              (''S3 validation failed for '' @ url @ '': '' @ error_message err)
              502 ''BAD_GATEWAY'')"

text \<open>
  The body of the \<^verbatim>\<open>try\<close> block of \<^verbatim>\<open>validateS3Origin\<close> up to the assignment: it
  gives the content type to store, or what the \<^verbatim>\<open>catch\<close> clause receives.
\<close>

definition validateS3Origin_try ::
  "env \<Rightarrow> string \<Rightarrow> image_request \<Rightarrow> connection_error caught + string option" where
  "validateS3Origin_try e url imageRequest =
     (case parseS3Url e url of
        Inl err \<Rightarrow> Inl (Foreign err)
      | Inr (bucket, key) \<Rightarrow>
          (case send_HeadObject e (commandInput e bucket key (clientHeaders imageRequest)) of
             Inl err \<Rightarrow> Inl (Foreign err)
           | Inr contentType \<Rightarrow>
               (case validateContentType contentType of
                  Inl own \<Rightarrow> Inl (Own own)
                | Inr u \<Rightarrow> Inr contentType)))"

text \<open>
  The probe functions return their outcome together with the request object as they
  leave it.
\<close>

definition validateS3Origin ::
  "env \<Rightarrow> string \<Rightarrow> image_request \<Rightarrow> (connection_error + unit) \<times> image_request" where
  "validateS3Origin e url imageRequest =
     (case validateS3Origin_try e url imageRequest of
        Inl error \<Rightarrow> (Inl (validateS3Origin_catch url error), imageRequest)
      | Inr contentType \<Rightarrow>
          (Inr (), imageRequest\<lparr>sourceImageContentType := contentType\<rparr>))"

text \<open>
  The mapping of an \<^verbatim>\<open>axios\<close> error in \<^verbatim>\<open>validateHttpOrigin\<close>: first the status of
  the response, if there is one, then the error code; \<open>None\<close> when no branch throws.
\<close>

definition responseError :: "string \<Rightarrow> js_error \<Rightarrow> connection_error option" where
  "responseError url err =
     (case response_status err of
        None \<Rightarrow> None
      | Some st \<Rightarrow>
          if st = 404 then
            Some (ConnectionError ''Resource not found'' (''Resource not found at '' @ url)
                    404 ''RESOURCE_NOT_FOUND'')
          else if st = 403 \<or> st = 401 then
            Some (ConnectionError ''Access denied'' (''Access denied for '' @ url)
                    st ''ACCESS_DENIED'')
          else if st \<ge> 500 then
            Some (ConnectionError ''Origin server error''
                    (''Origin server error ('' @ string_of_nat st @ '') for '' @ url)
                    502 ''BAD_GATEWAY'')
          else None)"

definition networkError :: "string \<Rightarrow> js_error \<Rightarrow> connection_error option" where
  "networkError url err =
     (if code err = Some ''ECONNABORTED'' then
        Some (ConnectionError ''Origin timeout''
                (''Origin validation timeout after 5000ms for URL: '' @ url)
                408 ''REQUEST_TIMEOUT'')
      else if code err = Some ''ENOTFOUND'' then
        Some (ConnectionError ''Unable to resolve host'' (''Unable to resolve host for '' @ url)
                404 ''HOST_NOT_FOUND'')
      else if code err = Some ''CERT_UNTRUSTED''
                \<or> code err = Some ''UNABLE_TO_VERIFY_LEAF_SIGNATURE'' then
        Some (ConnectionError ''TLS certificate error''
                (''TLS certificate validation failed for '' @ url @ '': '' @ error_message err)
                403 ''ACCESS_DENIED'')
      else None)"

text \<open>The \<^verbatim>\<open>catch\<close> clause of \<^verbatim>\<open>validateHttpOrigin\<close>.\<close>

definition validateHttpOrigin_catch ::
  "string \<Rightarrow> connection_error caught \<Rightarrow> connection_error" where
  "validateHttpOrigin_catch url error =
     (case error of
        Own own \<Rightarrow> own
      | Foreign err \<Rightarrow>
          (case (if isAxiosError err then
                   (case responseError url err of
                      Some thrown \<Rightarrow> Some thrown
                    | None \<Rightarrow> networkError url err)
                 else None) of
             Some thrown \<Rightarrow> thrown
           | None \<Rightarrow>
               ConnectionError ''Origin validation failed''
                 (''Origin validation failed for '' @ url @ '': ''
                    @ (if instanceofError err then error_message err else ''Unknown error''))
                 502 ''BAD_GATEWAY''))"

definition validateHttpOrigin_try ::
  "env \<Rightarrow> string \<Rightarrow> image_request \<Rightarrow> connection_error caught + string option" where
  "validateHttpOrigin_try e url imageRequest =
     (case axios_head e url
             (case clientHeaders imageRequest of None \<Rightarrow> [] | Some hs \<Rightarrow> hs) of
        Inl err \<Rightarrow> Inl (Foreign err)
      | Inr contentType \<Rightarrow>
          (case validateContentType contentType of
             Inl own \<Rightarrow> Inl (Own own)
           | Inr u \<Rightarrow> Inr contentType))"

definition validateHttpOrigin ::
  "env \<Rightarrow> string \<Rightarrow> image_request \<Rightarrow> (connection_error + unit) \<times> image_request" where
  "validateHttpOrigin e url imageRequest =
     (case validateHttpOrigin_try e url imageRequest of
        Inl error \<Rightarrow> (Inl (validateHttpOrigin_catch url error), imageRequest)
      | Inr contentType \<Rightarrow>
          (Inr (), imageRequest\<lparr>sourceImageContentType := contentType\<rparr>))"

definition validateOriginHeaders ::
  "env \<Rightarrow> string \<Rightarrow> image_request \<Rightarrow> (connection_error + unit) \<times> image_request" where
  "validateOriginHeaders e url imageRequest =
     (if isS3Url e url then validateS3Origin e url imageRequest
      else validateHttpOrigin e url imageRequest)"

text \<open>
  The last statement of \<^verbatim>\<open>validateOriginUrl\<close>: the preflight time is written only
  into a timing slot that is already there.
\<close>

definition storePreflightTiming :: "env \<Rightarrow> image_request \<Rightarrow> image_request" where
  "storePreflightTiming e imageRequest =
     (case timings imageRequest of
        None \<Rightarrow> imageRequest
      | Some t \<Rightarrow>
          (case requestResolution t of
             None \<Rightarrow> imageRequest
           | Some slot \<Rightarrow>
               imageRequest\<lparr>timings :=
                 Some (t\<lparr>requestResolution :=
                   Some (slot\<lparr>preflightValidationMs :=
                     Some (preflightEnd e - preflightStart e)\<rparr>)\<rparr>)\<rparr>))"

definition validateOriginUrl ::
  "env \<Rightarrow> string \<Rightarrow> image_request \<Rightarrow> (connection_error + unit) \<times> image_request" where
  "validateOriginUrl e url imageRequest =
     (case validate e url of
        Some error \<Rightarrow>
          (let message = (if instanceofError error then error_message error else ''Invalid URL'');
               errorCode = (if includes_str message ''protocol'' then ''UNSUPPORTED_PROTOCOL''
                            else ''INVALID_URL'')
           in (Inl (ConnectionError ''URL validation failed'' message 400 errorCode),
               imageRequest))
      | None \<Rightarrow>
          (case validateOriginHeaders e url imageRequest of
             (Inl error, imageRequest') \<Rightarrow> (Inl error, imageRequest')
           | (Inr u, imageRequest') \<Rightarrow> (Inr (), storePreflightTiming e imageRequest')))"

section \<open>The specification's tables and rules\<close>

text \<open>
  The signature registry in the order the specification lists it, and its rule that
  the first matching prefix wins.
\<close>

definition signatureRegistry :: "(string \<times> string) list" where
  "signatureRegistry =
     [(''FFD8FF'', ''jpeg''),
      (''89504E47'', ''png''),
      (''47494638'', ''gif''),
      (''52494646'', ''webp''),
      (''49492A00'', ''tiff''),
      (''4D4D002A'', ''tiff'')]"

definition firstMatch :: "(string \<times> string) list \<Rightarrow> string \<Rightarrow> string option" where
  "firstMatch registry header =
     map_option snd (find (\<lambda>entry. startsWith header (fst entry)) registry)"

text \<open>
  The content-type acceptance rule of the probe in the words of the specification:
  remove the parameter suffix that starts at the first \<open>;\<close>, trim, and accept a value
  that begins with \<^verbatim>\<open>image/\<close> or equals \<^verbatim>\<open>binary/octet-stream\<close>.
\<close>

definition mediaType :: "string \<Rightarrow> string" where
  "mediaType ct = trim (takeWhile (\<lambda>c. c \<noteq> CHR '';'') ct)"

definition specAccepts :: "string \<Rightarrow> bool" where
  "specAccepts ct = (startsWith (mediaType ct) ''image/'' \<or> mediaType ct = ''binary/octet-stream'')"

text \<open>The rule the probe implements: both alternatives are prefix tests.\<close>

definition probeAccepts :: "string \<Rightarrow> bool" where
  "probeAccepts ct =
     (startsWith (mediaType ct) ''image/'' \<or> startsWith (mediaType ct) ''binary/octet-stream'')"

text \<open>
  The failure classes of the probe's HEAD request in the words of the specification. A
  status row applies to a response whose status is 404, 403, 401 or at least 500. The
  other classes are told apart by the error code under which Node and \<^verbatim>\<open>axios\<close>
  report them: a deadline expiry is the expiry of the request's own \<^verbatim>\<open>timeout\<close>
  (\<^verbatim>\<open>ECONNABORTED\<close>); a host-resolution failure is a failed address lookup
  (\<^verbatim>\<open>ENOTFOUND\<close>, and \<^verbatim>\<open>EAI_AGAIN\<close> when the resolver fails for the moment); a
  certificate-trust failure is a certificate chain that does not lead to a trusted
  root.
\<close>

definition statusRow :: "js_error \<Rightarrow> bool" where
  "statusRow err =
     (case response_status err of
        None \<Rightarrow> False
      | Some st \<Rightarrow> st = 404 \<or> st = 403 \<or> st = 401 \<or> 500 \<le> st)"

definition deadlineExpiry :: "js_error \<Rightarrow> bool" where
  "deadlineExpiry err = (code err = Some ''ECONNABORTED'')"

definition hostResolutionCodes :: "string list" where
  "hostResolutionCodes = [''ENOTFOUND'', ''EAI_AGAIN'']"

definition hostResolutionFailure :: "js_error \<Rightarrow> bool" where
  "hostResolutionFailure err =
     (case code err of None \<Rightarrow> False | Some c \<Rightarrow> c \<in> set hostResolutionCodes)"

definition certificateTrustCodes :: "string list" where
  "certificateTrustCodes =
     [''CERT_UNTRUSTED'',
      ''UNABLE_TO_VERIFY_LEAF_SIGNATURE'',
      ''DEPTH_ZERO_SELF_SIGNED_CERT'',
      ''SELF_SIGNED_CERT_IN_CHAIN'',
      ''UNABLE_TO_GET_ISSUER_CERT'',
      ''UNABLE_TO_GET_ISSUER_CERT_LOCALLY'']"

definition certificateTrustFailure :: "js_error \<Rightarrow> bool" where
  "certificateTrustFailure err =
     (case code err of None \<Rightarrow> False | Some c \<Rightarrow> c \<in> set certificateTrustCodes)"

section \<open>Example collaborators\<close>

text \<open>\<^verbatim>\<open>new Error(message)\<close>.\<close>

definition newError :: "string \<Rightarrow> js_error" where
  "newError msg =
     \<lparr>instanceofError = True, error_name = ''Error'', error_message = msg,
      httpStatusCode = None, isAxiosError = False, response_status = None, code = None\<rparr>"

text \<open>An \<^verbatim>\<open>AxiosError\<close> with the given response status and error code.\<close>

definition axiosError :: "nat option \<Rightarrow> string option \<Rightarrow> js_error" where
  "axiosError st c =
     \<lparr>instanceofError = True, error_name = ''AxiosError'', error_message = ''Request failed'',
      httpStatusCode = None, isAxiosError = True, response_status = st, code = c\<rparr>"

text \<open>
  One bucket whose object is a four-byte JPEG header, a validator that rejects what is
  not \<^verbatim>\<open>https\<close>, an HTTP origin that answers 200 with PNG bytes and no content-type
  header, and a probe whose HEAD request times out.
\<close>

definition exampleEnv :: env where
  "exampleEnv =
     \<lparr>isS3Url = (\<lambda>url. startsWith url ''https://bucket.s3.amazonaws.com/''),
      parseS3Url = (\<lambda>url. Inr (''bucket'', drop 32 url)),
      mapHeaderToS3Property = (\<lambda>name. name),
      validate = (\<lambda>url. if startsWith url ''https://'' then None
                         else Some (newError ''HTTP protocol not allowed'')),
      mapError = (\<lambda>err. None),
      send_GetObject = (\<lambda>input.
        Inr \<lparr>Body = Some (BufferBody [0xFF, 0xD8, 0xFF, 0xE0]),
             ContentType = Some ''image/jpeg''\<rparr>),
      fetch = (\<lambda>url hs.
        Inr \<lparr>http_status = 200, http_statusText = ''OK'', http_contentType = None,
             http_arrayBuffer = Inr [0x89, 0x50, 0x4E, 0x47]\<rparr>),
      send_HeadObject = (\<lambda>input. Inr (Some ''image/jpeg'')),
      axios_head = (\<lambda>url hs. Inl (axiosError None (Some ''ECONNABORTED''))),
      preflightStart = 1000,
      preflightEnd = 1042\<rparr>"

definition exampleRequest :: image_request where
  "exampleRequest =
     \<lparr>clientHeaders = None,
      sourceImageContentType = None,
      timings = Some \<lparr>requestResolution = Some \<lparr>preflightValidationMs = None\<rparr>\<rparr>\<rparr>"

section \<open>String operations: what they compute\<close>

lemma startsWith_append: "startsWith s p \<longleftrightarrow> (\<exists>rest. s = p @ rest)"
  by (induction s p rule: startsWith.induct) auto

lemma includes_str_substring: "includes_str s p \<longleftrightarrow> (\<exists>pre post. s = pre @ p @ post)"
proof (induction s)
  case Nil
  then show ?case by auto
next
  case (Cons c cs)
  show ?case
  proof
    assume "includes_str (c # cs) p"
    then consider "startsWith (c # cs) p" | "includes_str cs p" by auto
    then show "\<exists>pre post. c # cs = pre @ p @ post"
    proof cases
      case 1
      then obtain rest where "c # cs = p @ rest" by (auto simp: startsWith_append)
      then have "c # cs = [] @ p @ rest" by simp
      then show ?thesis by blast
    next
      case 2
      then obtain pre post where "cs = pre @ p @ post" using Cons.IH by auto
      then have "c # cs = (c # pre) @ p @ post" by simp
      then show ?thesis by blast
    qed
  next
    assume "\<exists>pre post. c # cs = pre @ p @ post"
    then obtain pre post where eq: "c # cs = pre @ p @ post" by auto
    show "includes_str (c # cs) p"
    proof (cases pre)
      case Nil
      with eq have "startsWith (c # cs) p" by (auto simp: startsWith_append)
      then show ?thesis by simp
    next
      case (Cons d pre')
      with eq have "cs = pre' @ p @ post" by simp
      then have "includes_str cs p" using Cons.IH by blast
      then show ?thesis by simp
    qed
  qed
qed

text \<open>
  What \<^verbatim>\<open>replace\<close> computes: a string without the pattern is returned as it is;
  otherwise the first occurrence of the pattern, the one with the shortest text before
  it, is cut out and the replacement put in its place.
\<close>

lemma replace_absent:
  "\<not> includes_str s p \<Longrightarrow> replace s p r = s"
  by (induction s) auto

lemma replace_first:
  assumes "s = pre @ p @ post"
    and "\<forall>pre' post'. s = pre' @ p @ post' \<longrightarrow> length pre \<le> length pre'"
  shows "replace s p r = pre @ r @ post"
  using assms
proof (induction pre arbitrary: s)
  case Nil
  then have sw: "startsWith s p" by (auto simp: startsWith_append)
  show ?case
  proof (cases s)
    case Nil
    with \<open>s = [] @ p @ post\<close> show ?thesis by simp
  next
    case (Cons c cs)
    with sw have "replace s p r = r @ drop (length p) s" by simp
    also have "drop (length p) s = post" using \<open>s = [] @ p @ post\<close> by simp
    finally show ?thesis by simp
  qed
next
  case (Cons a pre)
  let ?t = "pre @ p @ post"
  have s: "s = a # ?t" using Cons.prems(1) by simp
  have "\<not> startsWith s p"
  proof
    assume "startsWith s p"
    then obtain rest where "s = [] @ p @ rest" by (auto simp: startsWith_append)
    with Cons.prems(2) have "length (a # pre) \<le> length ([] :: string)" by blast
    then show False by simp
  qed
  moreover have "\<forall>pre' post'. ?t = pre' @ p @ post' \<longrightarrow> length pre \<le> length pre'"
  proof (intro allI impI)
    fix pre' post'
    assume "?t = pre' @ p @ post'"
    with s have "s = (a # pre') @ p @ post'" by simp
    with Cons.prems(2) have "length (a # pre) \<le> length (a # pre')" by blast
    then show "length pre \<le> length pre'" by simp
  qed
  then have "replace ?t p r = pre @ r @ post" using Cons.IH by blast
  ultimately show ?case using s by simp
qed

text \<open>The first element of a split is there, and it is the text before the separator.\<close>

lemma split_nonempty: "split s sep \<noteq> []"
  by (induction s) (auto split: list.splits)

lemma hd_split: "hd (split s sep) = takeWhile (\<lambda>c. c \<noteq> sep) s"
  by (induction s) (auto split: list.splits simp: split_nonempty)

section \<open>Signature detection\<close>

lemma scanSignatures_find: "scanSignatures registry header = firstMatch registry header"
  by (induction registry) (auto simp: firstMatch_def)

lemma scanSignatures_nonempty:
  "scanSignatures magicToFormat header = Some d \<Longrightarrow> d \<noteq> []"
  by (auto simp: magicToFormat_def split: if_splits)

text \<open>
  No header starts with two of the six prefixes, so the order in which the engine
  enumerates the table and the order of the specification find the same format.
\<close>

lemma scanSignatures_order:
  "scanSignatures magicToFormat header = scanSignatures signatureRegistry header"
proof (cases header)
  case Nil
  then show ?thesis by (simp add: magicToFormat_def signatureRegistry_def)
next
  case (Cons a as)
  show ?thesis
  proof (cases as)
    case Nil
    with Cons show ?thesis by (simp add: magicToFormat_def signatureRegistry_def)
  next
    case (Cons b bs)
    with \<open>header = a # as\<close> show ?thesis
      by (simp add: magicToFormat_def signatureRegistry_def)
  qed
qed

lemma scanSignatures_registry:
  "scanSignatures magicToFormat header = firstMatch signatureRegistry header"
  using scanSignatures_order [of header] scanSignatures_find [of signatureRegistry header]
  by simp

lemma fileHeader_jpeg: "fileHeader [0xFF, 0xD8, 0xFF, 0xE0] = ''FFD8FFE0''"
  by (simp add: fileHeader_def toString_hex_def hex_of_byte_def hex_digit_def
      toUpperCase_def isAsciiLower_def)

lemma fileHeader_zero: "fileHeader [0x00, 0x01, 0x02, 0x03] = ''00010203''"
  by (simp add: fileHeader_def toString_hex_def hex_of_byte_def hex_digit_def
      toUpperCase_def isAsciiLower_def)

text \<open>Every registered signature, as bytes, is detected as its format.\<close>

lemma detectedFormat_signatures:
  "detectedFormat (0xFF # 0xD8 # 0xFF # b # rest) = Inr (Some ''jpeg'')"
  "detectedFormat (0x89 # 0x50 # 0x4E # 0x47 # rest) = Inr (Some ''png'')"
  "detectedFormat (0x47 # 0x49 # 0x46 # 0x38 # rest) = Inr (Some ''gif'')"
  "detectedFormat (0x52 # 0x49 # 0x46 # 0x46 # rest) = Inr (Some ''webp'')"
  "detectedFormat (0x49 # 0x49 # 0x2A # 0x00 # rest) = Inr (Some ''tiff'')"
  "detectedFormat (0x4D # 0x4D # 0x00 # 0x2A # rest) = Inr (Some ''tiff'')"
  by (simp_all add: detectedFormat_def magicToFormat_def fileHeader_def toString_hex_def
      hex_of_byte_def hex_digit_def toUpperCase_def isAsciiLower_def)

text \<open>
  C3. A buffer of fewer than four bytes fails both signature detection and the
  cross-validation with status 415, kind \<^verbatim>\<open>InvalidImage\<close> and the message
  \<^verbatim>\<open>File too small to be a valid image\<close>, whatever the declared content type is, and
  also when there is none.
\<close>

theorem tooSmall_always:
  assumes "length buf < 4"
  shows "detectedFormat buf =
           Inl (ImageProcessingError 415 ''InvalidImage'' ''File too small to be a valid image'')
         \<and> validateImageMagicNumbers buf contentType =
           Inl (ImageProcessingError 415 ''InvalidImage'' ''File too small to be a valid image'')"
  using assms by (simp add: detectedFormat_def validateImageMagicNumbers_def)

theorem tooSmall_always_witness:
  "length [0xFF, 0xD8 :: 8 word] < 4
   \<and> detectedFormat [0xFF, 0xD8] =
       Inl (ImageProcessingError 415 ''InvalidImage'' ''File too small to be a valid image'')
   \<and> validateImageMagicNumbers [0xFF, 0xD8] (Some ''image/jpeg'') =
       Inl (ImageProcessingError 415 ''InvalidImage'' ''File too small to be a valid image'')"
  using tooSmall_always [of "[0xFF, 0xD8]" "Some ''image/jpeg''"] by simp

text \<open>
  C4. On a buffer of at least four bytes, signature detection returns the format that
  the registry of the specification, scanned in its order, pairs with the first prefix
  of the upper-case hex encoding of the first four bytes; when no prefix matches it
  returns no format, which is a result and not an error.
\<close>

theorem detectedFormat_registry:
  assumes "4 \<le> length buf"
  shows "detectedFormat buf =
           Inr (firstMatch signatureRegistry (toUpperCase (toString_hex (take 4 buf))))
         \<and> ((\<forall>entry \<in> set signatureRegistry.
                \<not> startsWith (toUpperCase (toString_hex (take 4 buf))) (fst entry))
              \<longrightarrow> detectedFormat buf = Inr None)"
proof -
  have eq: "detectedFormat buf = Inr (firstMatch signatureRegistry (fileHeader buf))"
    using assms
    by (simp add: detectedFormat_def scanSignatures_registry)
  have "firstMatch signatureRegistry h = None"
    if "\<forall>entry \<in> set signatureRegistry. \<not> startsWith h (fst entry)" for h
    using that by (fastforce simp: firstMatch_def find_None_iff)
  with eq show ?thesis by (simp add: fileHeader_def)
qed

theorem detectedFormat_registry_witness:
  "detectedFormat [0xFF, 0xD8, 0xFF, 0xE0] = Inr (Some ''jpeg'')
   \<and> detectedFormat [0x00, 0x01, 0x02, 0x03] = Inr None"
  using detectedFormat_registry [of "[0xFF, 0xD8, 0xFF, 0xE0]"]
    detectedFormat_registry [of "[0x00, 0x01, 0x02, 0x03]"]
    fileHeader_jpeg fileHeader_zero
  by (simp add: fileHeader_def firstMatch_def signatureRegistry_def)

section \<open>Cross-validation\<close>

lemma fileHeader_png: "fileHeader [0x89, 0x50, 0x4E, 0x47] = ''89504E47''"
  by (simp add: fileHeader_def toString_hex_def hex_of_byte_def hex_digit_def
      toUpperCase_def isAsciiLower_def)

lemma fileHeader_png_off: "fileHeader [0x89, 0x50, 0x4E, 0x46] = ''89504E46''"
  by (simp add: fileHeader_def toString_hex_def hex_of_byte_def hex_digit_def
      toUpperCase_def isAsciiLower_def)

lemma expectedFormat_own:
  "map_of contentTypeToFormat key = Some format \<Longrightarrow> expectedFormat key = Some format"
  by (simp add: expectedFormat_def)

text \<open>
  C1. On a buffer of at least four bytes: when the lower-cased declared content type
  is a key of the content-type table and no signature is detected, the cross-validation
  fails with status 415, kind \<^verbatim>\<open>InvalidImage\<close> and the message
  \<^verbatim>\<open>Invalid or corrupted <expected format> file\<close>; when a signature is detected it
  succeeds, whatever the declared content type is, so also when the detected format is
  not the expected one.
\<close>

theorem validateImageMagicNumbers_policy:
  assumes "4 \<le> length buf"
  shows "(map_of contentTypeToFormat (toLowerCase ct) = Some expected
            \<and> detectedFormat buf = Inr None
          \<longrightarrow> validateImageMagicNumbers buf (Some ct) =
                Inl (ImageProcessingError 415 ''InvalidImage''
                       (''Invalid or corrupted '' @ expected @ '' file'')))
         \<and> (detectedFormat buf = Inr (Some detected)
              \<longrightarrow> validateImageMagicNumbers buf contentType = Inr ())"
proof (intro conjI impI)
  assume h: "map_of contentTypeToFormat (toLowerCase ct) = Some expected
               \<and> detectedFormat buf = Inr None"
  then have "toLowerCase ct \<noteq> []"
    by (auto simp: contentTypeToFormat_def)
  then have "ct \<noteq> []" by (auto simp: toLowerCase_def)
  moreover from h assms have "scanSignatures magicToFormat (fileHeader buf) = None"
    by (simp add: detectedFormat_def)
  moreover from h have "expectedFormat (toLowerCase ct) = Some expected"
    by (simp add: expectedFormat_own)
  ultimately show "validateImageMagicNumbers buf (Some ct) =
      Inl (ImageProcessingError 415 ''InvalidImage''
             (''Invalid or corrupted '' @ expected @ '' file''))"
    using assms by (simp add: validateImageMagicNumbers_def truthy_def)
next
  assume "detectedFormat buf = Inr (Some detected)"
  with assms have d: "scanSignatures magicToFormat (fileHeader buf) = Some detected"
    by (simp add: detectedFormat_def)
  then have "detected \<noteq> []" by (rule scanSignatures_nonempty)
  with d assms show "validateImageMagicNumbers buf contentType = Inr ()"
    by (simp add: validateImageMagicNumbers_def truthy_def split: option.splits)
qed

theorem validateImageMagicNumbers_policy_witness:
  "validateImageMagicNumbers [0x89, 0x50, 0x4E, 0x46] (Some ''image/png'') =
     Inl (ImageProcessingError 415 ''InvalidImage'' ''Invalid or corrupted png file'')
   \<and> validateImageMagicNumbers [0x89, 0x50, 0x4E, 0x47] (Some ''image/jpeg'') = Inr ()"
  using validateImageMagicNumbers_policy
          [of "[0x89, 0x50, 0x4E, 0x46]" "''image/png''" "''png''" "''png''" "Some ''image/png''"]
        validateImageMagicNumbers_policy
          [of "[0x89, 0x50, 0x4E, 0x47]" "''image/jpeg''" "''jpeg''" "''png''" "Some ''image/jpeg''"]
        fileHeader_png fileHeader_png_off
  by (simp add: detectedFormat_def magicToFormat_def contentTypeToFormat_def
      toLowerCase_def isUpper_def)

section \<open>Content-type acceptance of the probe\<close>

lemma mediaTypeStartsWith_mediaType:
  "mediaTypeStartsWith (Some ct) prefix = startsWith (mediaType ct) prefix"
  by (simp add: mediaTypeStartsWith_def mediaType_def hd_split)

text \<open>
  Counterexample to C2 as the specification states it: the probe accepts
  \<^verbatim>\<open>binary/octet-stream-x\<close>, which begins with \<^verbatim>\<open>binary/octet-stream\<close> without
  being equal to it.
\<close>

theorem validateContentType_counterexample:
  "\<not> (validateContentType (Some ''binary/octet-stream-x'') = Inr ()
        \<longleftrightarrow> specAccepts ''binary/octet-stream-x'')"
  by (simp add: validateContentType_def mediaTypeStartsWith_mediaType specAccepts_def
      mediaType_def trim_def isWhiteSpace_def)

text \<open>
  C2, amended. The probe accepts a content type if and only if it is present and,
  after its suffix from the first \<open>;\<close> is removed and the rest is trimmed, it begins
  with \<^verbatim>\<open>image/\<close> or begins with \<^verbatim>\<open>binary/octet-stream\<close>, compared case by case;
  every other value fails with status 400 and kind \<^verbatim>\<open>INVALID_FORMAT\<close>.
\<close>

theorem validateContentType_accepts:
  "validateContentType contentType =
     (if (case contentType of None \<Rightarrow> False | Some ct \<Rightarrow> probeAccepts ct) then Inr ()
      else Inl (ConnectionError ''Invalid content type''
                  (''Origin does not serve image content. Content-Type: ''
                     @ (case contentType of None \<Rightarrow> ''undefined'' | Some ct \<Rightarrow> ct))
                  400 ''INVALID_FORMAT''))"
proof (cases contentType)
  case None
  then show ?thesis by (simp add: validateContentType_def mediaTypeStartsWith_def)
next
  case (Some ct)
  then show ?thesis
    by (simp add: validateContentType_def mediaTypeStartsWith_mediaType probeAccepts_def)
qed

theorem validateContentType_accepts_witness:
  "validateContentType (Some ''image/jpeg; charset=binary'') = Inr ()
   \<and> validateContentType (Some ''IMAGE/JPEG'') =
       Inl (ConnectionError ''Invalid content type''
              ''Origin does not serve image content. Content-Type: IMAGE/JPEG''
              400 ''INVALID_FORMAT'')"
  using validateContentType_accepts [of "Some ''image/jpeg; charset=binary''"]
        validateContentType_accepts [of "Some ''IMAGE/JPEG''"]
  by (simp add: probeAccepts_def mediaType_def trim_def isWhiteSpace_def)

section \<open>The full fetch\<close>

text \<open>
  C5. A URL that the object-store classifier rejects and that starts with neither
  \<^verbatim>\<open>http://\<close> nor \<^verbatim>\<open>https://\<close> makes \<^verbatim>\<open>fetchImage\<close> fail with status 400, kind
  \<^verbatim>\<open>InvalidUrl\<close> and the message \<^verbatim>\<open>Unsupported URL protocol\<close>, and no network
  request is issued.
\<close>

theorem fetchImage_unsupported_protocol:
  assumes "\<not> isS3Url e url"
    and "\<not> startsWith url ''http://''"
    and "\<not> startsWith url ''https://''"
  shows "fetchImage e url headers =
           ([], Inl (ImageProcessingError 400 ''InvalidUrl'' ''Unsupported URL protocol''))"
  using assms by (simp add: fetchImage_def fetchOrigin_def)

theorem fetchImage_unsupported_protocol_witness:
  "\<not> isS3Url exampleEnv ''ftp://example.com/image.jpg''
   \<and> \<not> startsWith ''ftp://example.com/image.jpg'' ''http://''
   \<and> \<not> startsWith ''ftp://example.com/image.jpg'' ''https://''
   \<and> fetchImage exampleEnv ''ftp://example.com/image.jpg'' None =
       ([], Inl (ImageProcessingError 400 ''InvalidUrl'' ''Unsupported URL protocol''))"
  using fetchImage_unsupported_protocol [of exampleEnv "''ftp://example.com/image.jpg''" None]
  by (simp add: exampleEnv_def)

lemma truthy_scanSignatures:
  "truthy (scanSignatures magicToFormat header) \<longleftrightarrow> scanSignatures magicToFormat header \<noteq> None"
  by (auto simp: truthy_def dest: scanSignatures_nonempty split: option.splits)

text \<open>
  C6. When \<^verbatim>\<open>fetchImage\<close> succeeds, the returned buffer is the fetched body, the size
  is its length, and the format is the format detected from its first four bytes when
  a signature matches. When none matches, the format is absent if no content type was
  declared; it is the declared content type itself if that does not contain
  \<^verbatim>\<open>image/\<close>; and otherwise it is the declared content type with its first
  \<^verbatim>\<open>image/\<close> cut out.
\<close>

theorem fetchImage_metadata:
  assumes "fetchImage e url headers = (calls, Inr img)"
  shows "\<exists>body contentType detected.
           fetchOrigin e url headers = (calls, Inr (body, contentType))
           \<and> detectedFormat body = Inr detected
           \<and> buffer img = body
           \<and> metadata_size (metadata img) = length body
           \<and> metadata_format (metadata img) =
               (case detected of
                  Some format \<Rightarrow> Some format
                | None \<Rightarrow> map_option (\<lambda>ct. replace ct ''image/'' []) contentType)
           \<and> (detected = None \<and> contentType = None
                \<longrightarrow> metadata_format (metadata img) = None)
           \<and> (\<forall>ct. detected = None \<and> contentType = Some ct
                  \<and> (\<forall>pre post. ct \<noteq> pre @ ''image/'' @ post)
                \<longrightarrow> metadata_format (metadata img) = Some ct)
           \<and> (\<forall>ct pre post. detected = None \<and> contentType = Some ct
                  \<and> ct = pre @ ''image/'' @ post
                  \<and> (\<forall>pre' post'. ct = pre' @ ''image/'' @ post'
                        \<longrightarrow> length pre \<le> length pre')
                \<longrightarrow> metadata_format (metadata img) = Some (pre @ post))"
proof -
  obtain calls' result where origin: "fetchOrigin e url headers = (calls', result)"
    by (cases "fetchOrigin e url headers")
  with assms obtain body contentType where result: "result = Inr (body, contentType)"
    and calls: "calls' = calls"
    by (cases result) (auto simp: fetchImage_def)
  from assms origin result obtain detected where det: "detectedFormat body = Inr detected"
    by (cases "detectedFormat body") (auto simp: fetchImage_def split: sum.splits)
  then have scan: "detected = scanSignatures magicToFormat (fileHeader body)"
    by (auto simp: detectedFormat_def split: if_splits)
  from assms origin result det have img:
    "img = \<lparr>buffer = body,
            metadata = \<lparr>metadata_size = length body,
                        metadata_format =
                          (if truthy detected then detected
                           else map_option (\<lambda>ct. replace ct ''image/'' []) contentType)\<rparr>\<rparr>"
    by (auto simp: fetchImage_def split: sum.splits)
  have "(if truthy detected then detected
         else map_option (\<lambda>ct. replace ct ''image/'' []) contentType) =
        (case detected of
           Some format \<Rightarrow> Some format
         | None \<Rightarrow> map_option (\<lambda>ct. replace ct ''image/'' []) contentType)"
    using truthy_scanSignatures [of "fileHeader body"] scan
    by (cases detected) auto
  with img have fmt: "metadata_format (metadata img) =
      (case detected of
         Some format \<Rightarrow> Some format
       | None \<Rightarrow> map_option (\<lambda>ct. replace ct ''image/'' []) contentType)"
    by simp
  have absent: "metadata_format (metadata img) = Some ct"
    if "detected = None \<and> contentType = Some ct
          \<and> (\<forall>pre post. ct \<noteq> pre @ ''image/'' @ post)" for ct
  proof -
    from that have "\<not> includes_str ct ''image/''"
      unfolding includes_str_substring by blast
    then have "replace ct ''image/'' [] = ct" by (rule replace_absent)
    with that fmt show ?thesis by simp
  qed
  have stripped: "metadata_format (metadata img) = Some (pre @ post)"
    if h: "detected = None \<and> contentType = Some ct \<and> ct = pre @ ''image/'' @ post
          \<and> (\<forall>pre' post'. ct = pre' @ ''image/'' @ post' \<longrightarrow> length pre \<le> length pre')"
    for ct pre post
  proof -
    from h have "replace ct ''image/'' [] = pre @ [] @ post"
      by (intro replace_first) blast+
    with h fmt show ?thesis by simp
  qed
  from origin result calls have "fetchOrigin e url headers = (calls, Inr (body, contentType))"
    by simp
  moreover have "buffer img = body" and "metadata_size (metadata img) = length body"
    using img by simp_all
  moreover have "detected = None \<and> contentType = None
      \<longrightarrow> metadata_format (metadata img) = None"
    using fmt by simp
  ultimately show ?thesis using det fmt absent stripped
    by - (rule exI [of _ body], rule exI [of _ contentType], rule exI [of _ detected], blast)
qed

lemma fetchImage_example:
  "fetchImage exampleEnv ''https://bucket.s3.amazonaws.com/key'' None =
     ([GetObject [''Bucket'' \<mapsto> ''bucket'', ''Key'' \<mapsto> ''key'']],
      Inr \<lparr>buffer = [0xFF, 0xD8, 0xFF, 0xE0],
           metadata = \<lparr>metadata_size = 4, metadata_format = Some ''jpeg''\<rparr>\<rparr>)"
  by (simp add: fetchImage_def fetchOrigin_def exampleEnv_def fetchFromS3_def
      fetchFromS3_send_def commandInput_def validateImageMagicNumbers_def detectedFormat_def
      fileHeader_jpeg magicToFormat_def expectedFormat_def contentTypeToFormat_def
      toLowerCase_def isUpper_def truthy_def)

lemma fetchImage_fallback_example:
  "fetchImage
     (exampleEnv\<lparr>send_GetObject := (\<lambda>input.
        Inr \<lparr>Body = Some (BufferBody [0x00, 0x01, 0x02, 0x03]),
             ContentType = Some ''image/avif''\<rparr>)\<rparr>)
     ''https://bucket.s3.amazonaws.com/key'' None =
     ([GetObject [''Bucket'' \<mapsto> ''bucket'', ''Key'' \<mapsto> ''key'']],
      Inr \<lparr>buffer = [0x00, 0x01, 0x02, 0x03],
           metadata = \<lparr>metadata_size = 4, metadata_format = Some ''avif''\<rparr>\<rparr>)"
  by (simp add: fetchImage_def fetchOrigin_def exampleEnv_def fetchFromS3_def
      fetchFromS3_send_def commandInput_def validateImageMagicNumbers_def detectedFormat_def
      fileHeader_zero magicToFormat_def expectedFormat_def contentTypeToFormat_def
      toLowerCase_def isUpper_def truthy_def)

lemma fetchOrigin_fallback_example:
  "fetchOrigin
     (exampleEnv\<lparr>send_GetObject := (\<lambda>input.
        Inr \<lparr>Body = Some (BufferBody [0x00, 0x01, 0x02, 0x03]),
             ContentType = Some ''image/avif''\<rparr>)\<rparr>)
     ''https://bucket.s3.amazonaws.com/key'' None =
     ([GetObject [''Bucket'' \<mapsto> ''bucket'', ''Key'' \<mapsto> ''key'']],
      Inr ([0x00, 0x01, 0x02, 0x03], Some ''image/avif''))"
  by (simp add: fetchOrigin_def exampleEnv_def fetchFromS3_def fetchFromS3_send_def
      commandInput_def)

lemma detectedFormat_zero: "detectedFormat [0x00, 0x01, 0x02, 0x03] = Inr None"
  by (simp add: detectedFormat_def fileHeader_zero magicToFormat_def)

theorem fetchImage_metadata_witness:
  "fetchImage exampleEnv ''https://bucket.s3.amazonaws.com/key'' None =
     ([GetObject [''Bucket'' \<mapsto> ''bucket'', ''Key'' \<mapsto> ''key'']],
      Inr \<lparr>buffer = [0xFF, 0xD8, 0xFF, 0xE0],
           metadata = \<lparr>metadata_size = 4, metadata_format = Some ''jpeg''\<rparr>\<rparr>)
   \<and> (\<exists>calls img.
         fetchImage
           (exampleEnv\<lparr>send_GetObject := (\<lambda>input.
              Inr \<lparr>Body = Some (BufferBody [0x00, 0x01, 0x02, 0x03]),
                   ContentType = Some ''image/avif''\<rparr>)\<rparr>)
           ''https://bucket.s3.amazonaws.com/key'' None = (calls, Inr img)
         \<and> buffer img = [0x00, 0x01, 0x02, 0x03]
         \<and> metadata_size (metadata img) = 4
         \<and> metadata_format (metadata img) = Some ''avif'')"
proof -
  let ?env = "exampleEnv\<lparr>send_GetObject := (\<lambda>input.
      Inr \<lparr>Body = Some (BufferBody [0x00, 0x01, 0x02, 0x03]),
           ContentType = Some ''image/avif''\<rparr>)\<rparr>"
  let ?url = "''https://bucket.s3.amazonaws.com/key''"
  obtain calls img where run: "fetchImage ?env ?url None = (calls, Inr img)"
    using fetchImage_fallback_example by blast
  from fetchImage_metadata [OF run] obtain body contentType detected where
    origin: "fetchOrigin ?env ?url None = (calls, Inr (body, contentType))"
    and det: "detectedFormat body = Inr detected"
    and buf: "buffer img = body"
    and size: "metadata_size (metadata img) = length body"
    and stripped: "\<forall>ct pre post. detected = None \<and> contentType = Some ct
          \<and> ct = pre @ ''image/'' @ post
          \<and> (\<forall>pre' post'. ct = pre' @ ''image/'' @ post' \<longrightarrow> length pre \<le> length pre')
        \<longrightarrow> metadata_format (metadata img) = Some (pre @ post)"
    by blast
  from origin fetchOrigin_fallback_example
  have body: "body = [0x00, 0x01, 0x02, 0x03]" and ct: "contentType = Some ''image/avif''"
    by simp_all
  from det body detectedFormat_zero have none: "detected = None" by simp
  have "''image/avif'' = [] @ ''image/'' @ ''avif''" by simp
  with stripped none ct
  have "metadata_format (metadata img) = Some ([] @ ''avif'')"
    by (metis le0 list.size(3))
  with run buf size body have second:
    "\<exists>calls img. fetchImage ?env ?url None = (calls, Inr img)
       \<and> buffer img = [0x00, 0x01, 0x02, 0x03]
       \<and> metadata_size (metadata img) = 4
       \<and> metadata_format (metadata img) = Some ''avif''"
    by auto
  from fetchImage_example second show ?thesis by blast
qed

section \<open>The preflight probe\<close>

text \<open>
  C7. When the URL validator fails, \<^verbatim>\<open>validateOriginUrl\<close> fails with status 400 and
  the validator's message; the kind is \<^verbatim>\<open>UNSUPPORTED_PROTOCOL\<close> exactly when the
  message contains \<^verbatim>\<open>protocol\<close>, and \<^verbatim>\<open>INVALID_URL\<close> otherwise. The request object
  is left as it was.
\<close>

theorem validateOriginUrl_validator_failure:
  assumes "validate e url = Some error"
  shows "\<exists>message kind.
           validateOriginUrl e url imageRequest =
             (Inl (ConnectionError ''URL validation failed'' message 400 kind), imageRequest)
           \<and> message = (if instanceofError error then error_message error else ''Invalid URL'')
           \<and> (if \<exists>pre post. message = pre @ ''protocol'' @ post
               then kind = ''UNSUPPORTED_PROTOCOL'' else kind = ''INVALID_URL'')"
proof -
  define message where
    "message = (if instanceofError error then error_message error else ''Invalid URL'')"
  define kind where
    "kind = (if includes_str message ''protocol'' then ''UNSUPPORTED_PROTOCOL''
             else ''INVALID_URL'')"
  have result: "validateOriginUrl e url imageRequest =
      (Inl (ConnectionError ''URL validation failed'' message 400 kind), imageRequest)"
    using assms by (simp add: validateOriginUrl_def Let_def message_def kind_def)
  have "if \<exists>pre post. message = pre @ ''protocol'' @ post
        then kind = ''UNSUPPORTED_PROTOCOL'' else kind = ''INVALID_URL''"
    unfolding includes_str_substring [symmetric] kind_def by simp
  with result message_def show ?thesis by blast
qed

theorem validateOriginUrl_validator_failure_witness:
  "validate exampleEnv ''http://example.com/image.jpg'' = Some (newError ''HTTP protocol not allowed'')
   \<and> validateOriginUrl exampleEnv ''http://example.com/image.jpg'' exampleRequest =
       (Inl (ConnectionError ''URL validation failed'' ''HTTP protocol not allowed'' 400
               ''UNSUPPORTED_PROTOCOL''), exampleRequest)
   \<and> validateOriginUrl (exampleEnv\<lparr>validate := (\<lambda>url. Some (newError ''Invalid URL format''))\<rparr>)
         ''https://'' exampleRequest =
       (Inl (ConnectionError ''URL validation failed'' ''Invalid URL format'' 400
               ''INVALID_URL''), exampleRequest)"
proof -
  have h: "validate exampleEnv ''http://example.com/image.jpg'' =
             Some (newError ''HTTP protocol not allowed'')"
    by (simp add: exampleEnv_def)
  have sub: "\<exists>pre post. ''HTTP protocol not allowed'' = pre @ ''protocol'' @ post"
    unfolding includes_str_substring [symmetric] by simp
  from validateOriginUrl_validator_failure [OF h, of exampleRequest]
  obtain message kind where
    r: "validateOriginUrl exampleEnv ''http://example.com/image.jpg'' exampleRequest =
          (Inl (ConnectionError ''URL validation failed'' message 400 kind), exampleRequest)"
    and m: "message = ''HTTP protocol not allowed''"
    and k: "if \<exists>pre post. message = pre @ ''protocol'' @ post
            then kind = ''UNSUPPORTED_PROTOCOL'' else kind = ''INVALID_URL''"
    by (auto simp: newError_def)
  from k sub m have "kind = ''UNSUPPORTED_PROTOCOL''" by metis
  with r m have first:
    "validateOriginUrl exampleEnv ''http://example.com/image.jpg'' exampleRequest =
       (Inl (ConnectionError ''URL validation failed'' ''HTTP protocol not allowed'' 400
               ''UNSUPPORTED_PROTOCOL''), exampleRequest)"
    by simp
  let ?env = "exampleEnv\<lparr>validate := (\<lambda>url. Some (newError ''Invalid URL format''))\<rparr>"
  have h': "validate ?env ''https://'' = Some (newError ''Invalid URL format'')"
    by simp
  have sub': "\<not> (\<exists>pre post. ''Invalid URL format'' = pre @ ''protocol'' @ post)"
    unfolding includes_str_substring [symmetric] by simp
  from validateOriginUrl_validator_failure [OF h', of exampleRequest]
  obtain message' kind' where
    r': "validateOriginUrl ?env ''https://'' exampleRequest =
          (Inl (ConnectionError ''URL validation failed'' message' 400 kind'), exampleRequest)"
    and m': "message' = ''Invalid URL format''"
    and k': "if \<exists>pre post. message' = pre @ ''protocol'' @ post
             then kind' = ''UNSUPPORTED_PROTOCOL'' else kind' = ''INVALID_URL''"
    by (auto simp: newError_def)
  from k' sub' m' have "kind' = ''INVALID_URL''" by metis
  with r' m' have second:
    "validateOriginUrl ?env ''https://'' exampleRequest =
       (Inl (ConnectionError ''URL validation failed'' ''Invalid URL format'' 400
               ''INVALID_URL''), exampleRequest)"
    by simp
  from h first second show ?thesis by simp
qed

text \<open>
  A content type that the acceptance check rejects after a successful HEAD request is
  not a failure of the request: its 400 \<^verbatim>\<open>INVALID_FORMAT\<close> passes through the
  \<^verbatim>\<open>catch\<close> clause as it is.
\<close>

lemma validateHttpOrigin_rejected_contentType:
  assumes "axios_head e url (case clientHeaders imageRequest of None \<Rightarrow> [] | Some hs \<Rightarrow> hs)
             = Inr contentType"
    and "validateContentType contentType = Inl rejected"
  shows "validateHttpOrigin e url imageRequest = (Inl rejected, imageRequest)"
  using assms
  by (simp add: validateHttpOrigin_def validateHttpOrigin_try_def validateHttpOrigin_catch_def)

text \<open>
  Counterexample to C8 as stated: a certificate-trust failure and a host-resolution
  failure that the probe does not map to 403 \<^verbatim>\<open>ACCESS_DENIED\<close> and 404
  \<^verbatim>\<open>HOST_NOT_FOUND\<close>. A self-signed certificate is refused with the code
  \<^verbatim>\<open>DEPTH_ZERO_SELF_SIGNED_CERT\<close> and a resolver that fails for the moment gives
  \<^verbatim>\<open>EAI_AGAIN\<close>; the probe tests for neither code, so both end in the last
  \<^verbatim>\<open>throw\<close>, 502 \<^verbatim>\<open>BAD_GATEWAY\<close>.
\<close>

theorem validateHttpOrigin_failure_mapping_counterexample:
  "certificateTrustFailure (axiosError None (Some ''DEPTH_ZERO_SELF_SIGNED_CERT''))
   \<and> validateHttpOrigin
         (exampleEnv\<lparr>axios_head :=
            (\<lambda>url hs. Inl (axiosError None (Some ''DEPTH_ZERO_SELF_SIGNED_CERT'')))\<rparr>)
         ''https://example.com/image.jpg'' exampleRequest =
       (Inl (ConnectionError ''Origin validation failed''
               ''Origin validation failed for https://example.com/image.jpg: Request failed''
               502 ''BAD_GATEWAY''),
        exampleRequest)
   \<and> hostResolutionFailure (axiosError None (Some ''EAI_AGAIN''))
   \<and> validateHttpOrigin
         (exampleEnv\<lparr>axios_head := (\<lambda>url hs. Inl (axiosError None (Some ''EAI_AGAIN'')))\<rparr>)
         ''https://example.com/image.jpg'' exampleRequest =
       (Inl (ConnectionError ''Origin validation failed''
               ''Origin validation failed for https://example.com/image.jpg: Request failed''
               502 ''BAD_GATEWAY''),
        exampleRequest)"
  by (simp add: certificateTrustFailure_def certificateTrustCodes_def
      hostResolutionFailure_def hostResolutionCodes_def
      validateHttpOrigin_def validateHttpOrigin_try_def validateHttpOrigin_catch_def
      responseError_def networkError_def axiosError_def exampleEnv_def exampleRequest_def)

text \<open>
  C8, amended. When the HEAD request of the probe fails, \<^verbatim>\<open>validateHttpOrigin\<close> fails
  with: 404 \<^verbatim>\<open>RESOURCE_NOT_FOUND\<close> for a response of status 404; the response's status
  and \<^verbatim>\<open>ACCESS_DENIED\<close> for 403 and 401; 502 \<^verbatim>\<open>BAD_GATEWAY\<close> for a status of at
  least 500; and, when no status row applies, 408 \<^verbatim>\<open>REQUEST_TIMEOUT\<close> for a deadline
  expiry, 404 \<^verbatim>\<open>HOST_NOT_FOUND\<close> for the error code \<^verbatim>\<open>ENOTFOUND\<close> and 403
  \<^verbatim>\<open>ACCESS_DENIED\<close> for the error codes \<^verbatim>\<open>CERT_UNTRUSTED\<close> and
  \<^verbatim>\<open>UNABLE_TO_VERIFY_LEAF_SIGNATURE\<close>. Every other failure gives 502
  \<^verbatim>\<open>BAD_GATEWAY\<close>: so do a host-resolution failure with another code than
  \<^verbatim>\<open>ENOTFOUND\<close> and a certificate-trust failure with another code than those two.
\<close>

theorem validateHttpOrigin_failure_mapping:
  assumes "axios_head e url (case clientHeaders imageRequest of None \<Rightarrow> [] | Some hs \<Rightarrow> hs)
             = Inl err"
  shows "\<exists>title detail st kind.
           validateHttpOrigin e url imageRequest =
             (Inl (ConnectionError title detail st kind), imageRequest)
           \<and> (isAxiosError err \<and> response_status err = Some 404
                \<longrightarrow> st = 404 \<and> kind = ''RESOURCE_NOT_FOUND'')
           \<and> (isAxiosError err
                  \<and> (response_status err = Some 403 \<or> response_status err = Some 401)
                \<longrightarrow> response_status err = Some st \<and> kind = ''ACCESS_DENIED'')
           \<and> (isAxiosError err \<and> (\<exists>s. response_status err = Some s \<and> 500 \<le> s)
                \<longrightarrow> st = 502 \<and> kind = ''BAD_GATEWAY'')
           \<and> (isAxiosError err \<and> \<not> statusRow err \<and> deadlineExpiry err
                \<longrightarrow> st = 408 \<and> kind = ''REQUEST_TIMEOUT'')
           \<and> (isAxiosError err \<and> \<not> statusRow err \<and> code err = Some ''ENOTFOUND''
                \<longrightarrow> st = 404 \<and> kind = ''HOST_NOT_FOUND'')
           \<and> (isAxiosError err \<and> \<not> statusRow err
                  \<and> (code err = Some ''CERT_UNTRUSTED''
                       \<or> code err = Some ''UNABLE_TO_VERIFY_LEAF_SIGNATURE'')
                \<longrightarrow> st = 403 \<and> kind = ''ACCESS_DENIED'')
           \<and> (\<not> isAxiosError err
                  \<or> (\<not> statusRow err \<and> \<not> deadlineExpiry err
                       \<and> code err \<noteq> Some ''ENOTFOUND''
                       \<and> code err \<noteq> Some ''CERT_UNTRUSTED''
                       \<and> code err \<noteq> Some ''UNABLE_TO_VERIFY_LEAF_SIGNATURE'')
                \<longrightarrow> st = 502 \<and> kind = ''BAD_GATEWAY'')
           \<and> (\<not> statusRow err \<and> hostResolutionFailure err
                  \<and> code err \<noteq> Some ''ENOTFOUND''
                \<longrightarrow> st = 502 \<and> kind = ''BAD_GATEWAY'')
           \<and> (\<not> statusRow err \<and> certificateTrustFailure err
                  \<and> code err \<noteq> Some ''CERT_UNTRUSTED''
                  \<and> code err \<noteq> Some ''UNABLE_TO_VERIFY_LEAF_SIGNATURE''
                \<longrightarrow> st = 502 \<and> kind = ''BAD_GATEWAY'')"
proof -
  have r: "validateHttpOrigin e url imageRequest =
             (Inl (validateHttpOrigin_catch url (Foreign err)), imageRequest)"
    using assms by (simp add: validateHttpOrigin_def validateHttpOrigin_try_def)
  obtain title detail st kind where
    c: "validateHttpOrigin_catch url (Foreign err) = ConnectionError title detail st kind"
    by (cases "validateHttpOrigin_catch url (Foreign err)")
  have 1: "st = 404 \<and> kind = ''RESOURCE_NOT_FOUND''"
    if "isAxiosError err \<and> response_status err = Some 404"
    using that c by (auto simp: validateHttpOrigin_catch_def responseError_def)
  have 2: "response_status err = Some st \<and> kind = ''ACCESS_DENIED''"
    if "isAxiosError err \<and> (response_status err = Some 403 \<or> response_status err = Some 401)"
    using that c by (auto simp: validateHttpOrigin_catch_def responseError_def)
  have 3: "st = 502 \<and> kind = ''BAD_GATEWAY''"
    if "isAxiosError err \<and> (\<exists>s. response_status err = Some s \<and> 500 \<le> s)"
    using that c by (auto simp: validateHttpOrigin_catch_def responseError_def)
  have none: "responseError url err = None" if "\<not> statusRow err"
    using that by (auto simp: responseError_def statusRow_def split: option.splits)
  have 4: "st = 408 \<and> kind = ''REQUEST_TIMEOUT''"
    if "isAxiosError err \<and> \<not> statusRow err \<and> deadlineExpiry err"
    using that c none
    by (auto simp: validateHttpOrigin_catch_def networkError_def deadlineExpiry_def)
  have 5: "st = 404 \<and> kind = ''HOST_NOT_FOUND''"
    if "isAxiosError err \<and> \<not> statusRow err \<and> code err = Some ''ENOTFOUND''"
    using that c none
    by (auto simp: validateHttpOrigin_catch_def networkError_def)
  have 6: "st = 403 \<and> kind = ''ACCESS_DENIED''"
    if "isAxiosError err \<and> \<not> statusRow err
          \<and> (code err = Some ''CERT_UNTRUSTED''
               \<or> code err = Some ''UNABLE_TO_VERIFY_LEAF_SIGNATURE'')"
    using that c none
    by (auto simp: validateHttpOrigin_catch_def networkError_def)
  have 7: "st = 502 \<and> kind = ''BAD_GATEWAY''"
    if "\<not> isAxiosError err
          \<or> (\<not> statusRow err \<and> \<not> deadlineExpiry err
               \<and> code err \<noteq> Some ''ENOTFOUND''
               \<and> code err \<noteq> Some ''CERT_UNTRUSTED''
               \<and> code err \<noteq> Some ''UNABLE_TO_VERIFY_LEAF_SIGNATURE'')"
    using that c none
    by (cases "isAxiosError err")
      (auto simp: validateHttpOrigin_catch_def networkError_def deadlineExpiry_def)
  have 8: "st = 502 \<and> kind = ''BAD_GATEWAY''"
    if h: "\<not> statusRow err \<and> hostResolutionFailure err \<and> code err \<noteq> Some ''ENOTFOUND''"
  proof -
    from h have "code err = Some ''EAI_AGAIN''"
      by (auto simp: hostResolutionFailure_def hostResolutionCodes_def split: option.splits)
    with h have "\<not> statusRow err \<and> \<not> deadlineExpiry err
        \<and> code err \<noteq> Some ''ENOTFOUND''
        \<and> code err \<noteq> Some ''CERT_UNTRUSTED''
        \<and> code err \<noteq> Some ''UNABLE_TO_VERIFY_LEAF_SIGNATURE''"
      by (simp add: deadlineExpiry_def)
    then show ?thesis using 7 by blast
  qed
  have 9: "st = 502 \<and> kind = ''BAD_GATEWAY''"
    if h: "\<not> statusRow err \<and> certificateTrustFailure err
             \<and> code err \<noteq> Some ''CERT_UNTRUSTED''
             \<and> code err \<noteq> Some ''UNABLE_TO_VERIFY_LEAF_SIGNATURE''"
  proof -
    from h have "code err = Some ''DEPTH_ZERO_SELF_SIGNED_CERT''
        \<or> code err = Some ''SELF_SIGNED_CERT_IN_CHAIN''
        \<or> code err = Some ''UNABLE_TO_GET_ISSUER_CERT''
        \<or> code err = Some ''UNABLE_TO_GET_ISSUER_CERT_LOCALLY''"
      by (auto simp: certificateTrustFailure_def certificateTrustCodes_def
          split: option.splits)
    with h have "\<not> statusRow err \<and> \<not> deadlineExpiry err
        \<and> code err \<noteq> Some ''ENOTFOUND''
        \<and> code err \<noteq> Some ''CERT_UNTRUSTED''
        \<and> code err \<noteq> Some ''UNABLE_TO_VERIFY_LEAF_SIGNATURE''"
      by (auto simp: deadlineExpiry_def)
    then show ?thesis using 7 by blast
  qed
  from r c have "validateHttpOrigin e url imageRequest =
      (Inl (ConnectionError title detail st kind), imageRequest)"
    by simp
  with 1 2 3 4 5 6 7 8 9 show ?thesis
    by - (rule exI [of _ title], rule exI [of _ detail], rule exI [of _ st],
          rule exI [of _ kind], blast)
qed

theorem validateHttpOrigin_failure_mapping_witness:
  "map (\<lambda>err. fst (validateHttpOrigin (exampleEnv\<lparr>axios_head := (\<lambda>url hs. Inl err)\<rparr>)
                     ''https://example.com/image.jpg'' exampleRequest))
     [axiosError (Some 404) (Some ''ERR_BAD_REQUEST''),
      axiosError (Some 401) (Some ''ERR_BAD_REQUEST''),
      axiosError (Some 503) (Some ''ERR_BAD_RESPONSE''),
      axiosError None (Some ''ECONNABORTED''),
      axiosError None (Some ''ENOTFOUND''),
      axiosError None (Some ''CERT_UNTRUSTED''),
      axiosError (Some 302) (Some ''ERR_BAD_REQUEST''),
      axiosError None (Some ''EAI_AGAIN''),
      axiosError None (Some ''SELF_SIGNED_CERT_IN_CHAIN'')]
   = [Inl (ConnectionError ''Resource not found''
             ''Resource not found at https://example.com/image.jpg'' 404 ''RESOURCE_NOT_FOUND''),
      Inl (ConnectionError ''Access denied''
             ''Access denied for https://example.com/image.jpg'' 401 ''ACCESS_DENIED''),
      Inl (ConnectionError ''Origin server error''
             ''Origin server error (503) for https://example.com/image.jpg'' 502 ''BAD_GATEWAY''),
      Inl (ConnectionError ''Origin timeout''
             ''Origin validation timeout after 5000ms for URL: https://example.com/image.jpg''
             408 ''REQUEST_TIMEOUT''),
      Inl (ConnectionError ''Unable to resolve host''
             ''Unable to resolve host for https://example.com/image.jpg'' 404 ''HOST_NOT_FOUND''),
      Inl (ConnectionError ''TLS certificate error''
             ''TLS certificate validation failed for https://example.com/image.jpg: Request failed''
             403 ''ACCESS_DENIED''),
      Inl (ConnectionError ''Origin validation failed''
             ''Origin validation failed for https://example.com/image.jpg: Request failed''
             502 ''BAD_GATEWAY''),
      Inl (ConnectionError ''Origin validation failed''
             ''Origin validation failed for https://example.com/image.jpg: Request failed''
             502 ''BAD_GATEWAY''),
      Inl (ConnectionError ''Origin validation failed''
             ''Origin validation failed for https://example.com/image.jpg: Request failed''
             502 ''BAD_GATEWAY'')]"
  using validateHttpOrigin_failure_mapping
          [of "exampleEnv\<lparr>axios_head := (\<lambda>url hs. Inl (axiosError (Some 404) (Some ''ERR_BAD_REQUEST'')))\<rparr>"
              "''https://example.com/image.jpg''" exampleRequest
              "axiosError (Some 404) (Some ''ERR_BAD_REQUEST'')"]
        validateHttpOrigin_failure_mapping
          [of "exampleEnv\<lparr>axios_head := (\<lambda>url hs. Inl (axiosError (Some 401) (Some ''ERR_BAD_REQUEST'')))\<rparr>"
              "''https://example.com/image.jpg''" exampleRequest
              "axiosError (Some 401) (Some ''ERR_BAD_REQUEST'')"]
        validateHttpOrigin_failure_mapping
          [of "exampleEnv\<lparr>axios_head := (\<lambda>url hs. Inl (axiosError (Some 503) (Some ''ERR_BAD_RESPONSE'')))\<rparr>"
              "''https://example.com/image.jpg''" exampleRequest
              "axiosError (Some 503) (Some ''ERR_BAD_RESPONSE'')"]
        validateHttpOrigin_failure_mapping
          [of "exampleEnv\<lparr>axios_head := (\<lambda>url hs. Inl (axiosError None (Some ''ECONNABORTED'')))\<rparr>"
              "''https://example.com/image.jpg''" exampleRequest
              "axiosError None (Some ''ECONNABORTED'')"]
        validateHttpOrigin_failure_mapping
          [of "exampleEnv\<lparr>axios_head := (\<lambda>url hs. Inl (axiosError None (Some ''ENOTFOUND'')))\<rparr>"
              "''https://example.com/image.jpg''" exampleRequest
              "axiosError None (Some ''ENOTFOUND'')"]
        validateHttpOrigin_failure_mapping
          [of "exampleEnv\<lparr>axios_head := (\<lambda>url hs. Inl (axiosError None (Some ''CERT_UNTRUSTED'')))\<rparr>"
              "''https://example.com/image.jpg''" exampleRequest
              "axiosError None (Some ''CERT_UNTRUSTED'')"]
        validateHttpOrigin_failure_mapping
          [of "exampleEnv\<lparr>axios_head := (\<lambda>url hs. Inl (axiosError (Some 302) (Some ''ERR_BAD_REQUEST'')))\<rparr>"
              "''https://example.com/image.jpg''" exampleRequest
              "axiosError (Some 302) (Some ''ERR_BAD_REQUEST'')"]
        validateHttpOrigin_failure_mapping
          [of "exampleEnv\<lparr>axios_head := (\<lambda>url hs. Inl (axiosError None (Some ''EAI_AGAIN'')))\<rparr>"
              "''https://example.com/image.jpg''" exampleRequest
              "axiosError None (Some ''EAI_AGAIN'')"]
        validateHttpOrigin_failure_mapping
          [of "exampleEnv\<lparr>axios_head := (\<lambda>url hs. Inl (axiosError None (Some ''SELF_SIGNED_CERT_IN_CHAIN'')))\<rparr>"
              "''https://example.com/image.jpg''" exampleRequest
              "axiosError None (Some ''SELF_SIGNED_CERT_IN_CHAIN'')"]
  by (simp add: validateHttpOrigin_def validateHttpOrigin_try_def validateHttpOrigin_catch_def
      responseError_def networkError_def axiosError_def exampleEnv_def exampleRequest_def
      digit_char_def)

section \<open>An HTTP response without a content-type header\<close>

text \<open>
  Counterexample to C9 as stated: a 200 response without a content-type header whose
  body has two bytes fails with status 415, because the signature detection, with its
  four-byte floor, runs before the content type is dereferenced.
\<close>

theorem fetchFromHttp_no_contentType_counterexample:
  "ok \<lparr>http_status = 200, http_statusText = ''OK'', http_contentType = None,
        http_arrayBuffer = Inr [0xFF, 0xD8]\<rparr>
   \<and> snd (fetchFromHttp
            (exampleEnv\<lparr>fetch := (\<lambda>url hs.
               Inr \<lparr>http_status = 200, http_statusText = ''OK'', http_contentType = None,
                    http_arrayBuffer = Inr [0xFF, 0xD8]\<rparr>)\<rparr>)
            ''https://example.com/image.jpg'' None) =
       Inl (ImageProcessingError 415 ''InvalidImage'' ''File too small to be a valid image'')"
  by (simp add: ok_def fetchFromHttp_def fetchFromHttp_response_def fetchFromHttp_body_def
      fetchFromHttp_catch_def handleFetchError_def detectedFormat_def exampleEnv_def)

text \<open>
  C9, amended. For a 2xx response without a content-type header \<^verbatim>\<open>fetchFromHttp\<close>
  never returns the body. When the body has fewer than four bytes the failure is the
  415 \<^verbatim>\<open>InvalidImage\<close> of the floor check; when it has at least four, the
  \<^verbatim>\<open>TypeError\<close> of the dereferenced \<^verbatim>\<open>null\<close> reaches the caller as a status 500
  \<^verbatim>\<open>FetchError\<close>, provided the error translator does not recognise it.
\<close>

theorem fetchFromHttp_no_contentType:
  assumes "fetch e url (fetchHeaders headers) = Inr response"
    and "ok response"
    and "http_contentType response = None"
  shows "(\<exists>error. snd (fetchFromHttp e url headers) = Inl error)
         \<and> (\<forall>bytes. http_arrayBuffer response = Inr bytes \<and> length bytes < 4
               \<longrightarrow> snd (fetchFromHttp e url headers) =
                     Inl (ImageProcessingError 415 ''InvalidImage''
                            ''File too small to be a valid image''))
         \<and> (\<forall>bytes. http_arrayBuffer response = Inr bytes \<and> 4 \<le> length bytes
                 \<and> mapError e nullTypeError = None
               \<longrightarrow> snd (fetchFromHttp e url headers) =
                     Inl (ImageProcessingError 500 ''FetchError''
                            (''Failed to fetch image from '' @ url @ '': ''
                               @ error_message nullTypeError)))"
proof -
  have body: "fetchFromHttp_response response = fetchFromHttp_body response"
    using assms by (simp add: fetchFromHttp_response_def)
  have r: "snd (fetchFromHttp e url headers) =
      (case fetchFromHttp_body response of
         Inl error \<Rightarrow> Inl (fetchFromHttp_catch e url error)
       | Inr result \<Rightarrow> Inr result)"
    using assms body by (simp add: fetchFromHttp_def)
  have never: "\<exists>error. fetchFromHttp_body response = Inl error"
    using assms(3) by (auto simp: fetchFromHttp_body_def split: sum.splits)
  have 1: "\<exists>error. snd (fetchFromHttp e url headers) = Inl error"
    using never r by auto
  have 2: "snd (fetchFromHttp e url headers) =
      Inl (ImageProcessingError 415 ''InvalidImage'' ''File too small to be a valid image'')"
    if "http_arrayBuffer response = Inr bytes \<and> length bytes < 4" for bytes
    using that r
    by (simp add: fetchFromHttp_body_def detectedFormat_def fetchFromHttp_catch_def
        handleFetchError_def)
  have 3: "snd (fetchFromHttp e url headers) =
      Inl (ImageProcessingError 500 ''FetchError''
             (''Failed to fetch image from '' @ url @ '': '' @ error_message nullTypeError))"
    if "http_arrayBuffer response = Inr bytes \<and> 4 \<le> length bytes
          \<and> mapError e nullTypeError = None" for bytes
  proof -
    have "error_name nullTypeError \<noteq> ''AbortError''" by (simp add: nullTypeError_def)
    with that r assms(3) show ?thesis
      by (simp add: fetchFromHttp_body_def detectedFormat_def fetchFromHttp_catch_def
          handleFetchError_def)
  qed
  from 1 2 3 show ?thesis by blast
qed

theorem fetchFromHttp_no_contentType_witness:
  "fetch exampleEnv ''https://example.com/image.jpg'' (fetchHeaders None) =
     Inr \<lparr>http_status = 200, http_statusText = ''OK'', http_contentType = None,
          http_arrayBuffer = Inr [0x89, 0x50, 0x4E, 0x47]\<rparr>
   \<and> snd (fetchFromHttp exampleEnv ''https://example.com/image.jpg'' None) =
       Inl (ImageProcessingError 500 ''FetchError''
              ''Failed to fetch image from https://example.com/image.jpg: Cannot read properties of null (reading 'toLowerCase')'')"
proof -
  let ?response = "\<lparr>http_status = 200, http_statusText = ''OK'', http_contentType = None,
                     http_arrayBuffer = Inr [0x89, 0x50, 0x4E, 0x47 :: 8 word]\<rparr>"
  have f: "fetch exampleEnv ''https://example.com/image.jpg'' (fetchHeaders None) = Inr ?response"
    by (simp add: exampleEnv_def)
  have o: "ok ?response" by (simp add: ok_def)
  have c: "http_contentType ?response = None" by simp
  have m: "mapError exampleEnv nullTypeError = None" by (simp add: exampleEnv_def)
  from fetchFromHttp_no_contentType [OF f o c] m f show ?thesis
    by (simp add: nullTypeError_def)
qed

section \<open>The probe and the request object\<close>

lemma validateContentType_present:
  "validateContentType contentType = Inr u \<Longrightarrow> \<exists>ct. contentType = Some ct"
  by (cases contentType) (auto simp: validateContentType_def mediaTypeStartsWith_def)

lemma validateS3Origin_request:
  "(case validateS3Origin e url imageRequest of
      (Inl error, imageRequest') \<Rightarrow> imageRequest' = imageRequest
    | (Inr u, imageRequest') \<Rightarrow>
        (\<exists>ct. validateContentType (Some ct) = Inr ()
           \<and> imageRequest' = imageRequest\<lparr>sourceImageContentType := Some ct\<rparr>))"
proof (cases "validateS3Origin_try e url imageRequest")
  case (Inl error)
  then show ?thesis by (simp add: validateS3Origin_def)
next
  case (Inr contentType)
  then have "validateContentType contentType = Inr ()"
    by (auto simp: validateS3Origin_try_def split: sum.splits prod.splits)
  with validateContentType_present [of contentType "()"] Inr show ?thesis
    by (auto simp: validateS3Origin_def)
qed

lemma validateHttpOrigin_request:
  "(case validateHttpOrigin e url imageRequest of
      (Inl error, imageRequest') \<Rightarrow> imageRequest' = imageRequest
    | (Inr u, imageRequest') \<Rightarrow>
        (\<exists>ct. validateContentType (Some ct) = Inr ()
           \<and> imageRequest' = imageRequest\<lparr>sourceImageContentType := Some ct\<rparr>))"
proof (cases "validateHttpOrigin_try e url imageRequest")
  case (Inl error)
  then show ?thesis by (simp add: validateHttpOrigin_def)
next
  case (Inr contentType)
  then have "validateContentType contentType = Inr ()"
    by (auto simp: validateHttpOrigin_try_def split: sum.splits)
  with validateContentType_present [of contentType "()"] Inr show ?thesis
    by (auto simp: validateHttpOrigin_def)
qed

lemma validateOriginHeaders_request:
  "(case validateOriginHeaders e url imageRequest of
      (Inl error, imageRequest') \<Rightarrow> imageRequest' = imageRequest
    | (Inr u, imageRequest') \<Rightarrow>
        (\<exists>ct. validateContentType (Some ct) = Inr ()
           \<and> imageRequest' = imageRequest\<lparr>sourceImageContentType := Some ct\<rparr>))"
  using validateS3Origin_request [where e = e and url = url and imageRequest = imageRequest]
    validateHttpOrigin_request [where e = e and url = url and imageRequest = imageRequest]
  by (simp add: validateOriginHeaders_def)

text \<open>
  C10. Whenever \<^verbatim>\<open>validateOriginUrl\<close> fails, with whatever error, the request object
  is as it was before the call: the content-type slot keeps its value and no preflight
  time is written, also into a timing slot that is there. When it succeeds, the stored
  content type is one the acceptance check has passed, and the preflight time is
  written after it.
\<close>

theorem validateOriginUrl_mutation:
  "(\<forall>error. fst (validateOriginUrl e url imageRequest) = Inl error
      \<longrightarrow> snd (validateOriginUrl e url imageRequest) = imageRequest)
   \<and> (fst (validateOriginUrl e url imageRequest) = Inr ()
      \<longrightarrow> (\<exists>contentType.
             validateContentType (Some contentType) = Inr ()
             \<and> snd (validateOriginUrl e url imageRequest) =
                 storePreflightTiming e
                   (imageRequest\<lparr>sourceImageContentType := Some contentType\<rparr>)))"
proof (cases "validate e url")
  case (Some error)
  then show ?thesis by (simp add: validateOriginUrl_def Let_def)
next
  case None
  obtain outcome imageRequest' where
    h: "validateOriginHeaders e url imageRequest = (outcome, imageRequest')"
    by (cases "validateOriginHeaders e url imageRequest")
  show ?thesis
  proof (cases outcome)
    case (Inl error)
    with h validateOriginHeaders_request [where e = e and url = url and imageRequest = imageRequest]
    have "imageRequest' = imageRequest" by simp
    with None h Inl show ?thesis by (simp add: validateOriginUrl_def)
  next
    case (Inr u)
    with h validateOriginHeaders_request [where e = e and url = url and imageRequest = imageRequest]
    obtain ct where "validateContentType (Some ct) = Inr ()"
      and "imageRequest' = imageRequest\<lparr>sourceImageContentType := Some ct\<rparr>"
      by auto
    with None h Inr show ?thesis by (auto simp: validateOriginUrl_def)
  qed
qed

lemma validateOriginUrl_timeout_example:
  "validateOriginUrl exampleEnv ''https://example.com/image.jpg'' exampleRequest =
     (Inl (ConnectionError ''Origin timeout''
             ''Origin validation timeout after 5000ms for URL: https://example.com/image.jpg''
             408 ''REQUEST_TIMEOUT''),
      exampleRequest)"
  by (simp add: validateOriginUrl_def validateOriginHeaders_def validateHttpOrigin_def
      validateHttpOrigin_try_def validateHttpOrigin_catch_def responseError_def
      networkError_def axiosError_def exampleEnv_def exampleRequest_def)

lemma validateOriginUrl_success_example:
  "validateOriginUrl exampleEnv ''https://bucket.s3.amazonaws.com/key'' exampleRequest =
     (Inr (),
      \<lparr>clientHeaders = None,
       sourceImageContentType = Some ''image/jpeg'',
       timings = Some \<lparr>requestResolution = Some \<lparr>preflightValidationMs = Some 42\<rparr>\<rparr>\<rparr>)"
  by (simp add: validateOriginUrl_def validateOriginHeaders_def validateS3Origin_def
      validateS3Origin_try_def validateContentType_def mediaTypeStartsWith_def
      trim_def isWhiteSpace_def storePreflightTiming_def commandInput_def
      exampleEnv_def exampleRequest_def)

theorem validateOriginUrl_mutation_witness:
  "fst (validateOriginUrl exampleEnv ''https://example.com/image.jpg'' exampleRequest) =
     Inl (ConnectionError ''Origin timeout''
            ''Origin validation timeout after 5000ms for URL: https://example.com/image.jpg''
            408 ''REQUEST_TIMEOUT'')
   \<and> snd (validateOriginUrl exampleEnv ''https://example.com/image.jpg'' exampleRequest) =
       exampleRequest
   \<and> timings exampleRequest = Some \<lparr>requestResolution = Some \<lparr>preflightValidationMs = None\<rparr>\<rparr>
   \<and> fst (validateOriginUrl exampleEnv ''https://bucket.s3.amazonaws.com/key'' exampleRequest) =
       Inr ()
   \<and> (\<exists>contentType.
         validateContentType (Some contentType) = Inr ()
         \<and> snd (validateOriginUrl exampleEnv ''https://bucket.s3.amazonaws.com/key''
                  exampleRequest) =
             storePreflightTiming exampleEnv
               (exampleRequest\<lparr>sourceImageContentType := Some contentType\<rparr>))"
  using validateOriginUrl_mutation
          [of exampleEnv "''https://example.com/image.jpg''" exampleRequest]
        validateOriginUrl_mutation
          [of exampleEnv "''https://bucket.s3.amazonaws.com/key''" exampleRequest]
        validateOriginUrl_timeout_example validateOriginUrl_success_example
  by (simp add: exampleRequest_def)

end
